theory Spec2Isabelle
  imports Complex_Main
begin

section \<open>Values exchanged with the providers\<close>

text \<open>
  The clients of the audit system read JSON bodies through Python's dynamically typed
  dictionaries. A decoded body is a \<open>json\<close> value: an integer literal decodes to a Python
  \<open>int\<close> (unbounded), a literal with a fraction or an exponent to a \<open>float\<close>. A float is
  the real number it stands for, or one of the three values that are no real number: a
  literal beyond the range of a double decodes to infinity, and the decoder also accepts
  \<open>NaN\<close>, \<open>Infinity\<close> and \<open>-Infinity\<close>. The keys of an object are distinct and in the
  order of the body. An operation that Python rejects at run time returns the exception
  as a value (\<open>Inl\<close>), so that the \<open>except\<close> branches of the source stay branches of the
  model. Time stamps (\<open>datetime.now()\<close>) and log lines are left out, the log lines
  whose arguments can raise excepted.
\<close>

datatype pyfloat = Finite real | PosInf | NegInf | NaN

datatype json =
    JNull
  | JBool bool
  | JInt int
  | JFloat pyfloat
  | JStr string
  | JArr "json list"
  | JObj "(string \<times> json) list"

text \<open>The exceptions: those Python raises itself, \<open>Exception(m)\<close> as \<open>Raised m\<close>, and
  \<open>Exception(f"{m}{v}")\<close> for a decoded value \<open>v\<close> as \<open>RaisedWith m v\<close> (the text of
  \<open>v\<close> is Python's, and is not spelled out). \<open>ValueError\<close> is also what a body that
  does not decode raises (\<open>JSONDecodeError\<close> is a \<open>ValueError\<close>).\<close>

datatype py_exn =
    TypeError
  | ValueError
  | AttributeError
  | OverflowError
  | KeyError
  | IndexError
  | Raised string
  | RaisedWith string json

text \<open>Python truthiness, as \<open>x or y\<close> and \<open>if x\<close> use it.\<close>

fun truthy :: "json \<Rightarrow> bool" where
  "truthy JNull = False"
| "truthy (JBool b) = b"
| "truthy (JInt i) = (i \<noteq> 0)"
| "truthy (JFloat x) = (x \<noteq> Finite 0)"
| "truthy (JStr s) = (s \<noteq> [])"
| "truthy (JArr xs) = (xs \<noteq> [])"
| "truthy (JObj kv) = (kv \<noteq> [])"

definition py_or :: "json \<Rightarrow> json \<Rightarrow> json" where
  "py_or a b = (if truthy a then a else b)"

text \<open>\<open>d.get(k, default)\<close> on a dictionary.\<close>

definition dict_get :: "(string \<times> json) list \<Rightarrow> string \<Rightarrow> json \<Rightarrow> json" where
  "dict_get kv k d = (case map_of kv k of None \<Rightarrow> d | Some v \<Rightarrow> v)"

definition has_key :: "(string \<times> json) list \<Rightarrow> string \<Rightarrow> bool" where
  "has_key kv k = (map_of kv k \<noteq> None)"

text \<open>\<open>x.get(k, default)\<close> on any value: only a dictionary has the method.\<close>

fun py_get :: "json \<Rightarrow> string \<Rightarrow> json \<Rightarrow> py_exn + json" where
  "py_get (JObj kv) k d = Inr (dict_get kv k d)"
| "py_get _ k d = Inl AttributeError"

fun is_prefix :: "string \<Rightarrow> string \<Rightarrow> bool" where
  "is_prefix [] ys = True"
| "is_prefix (x # xs) [] = False"
| "is_prefix (x # xs) (y # ys) = (x = y \<and> is_prefix xs ys)"

fun is_substr :: "string \<Rightarrow> string \<Rightarrow> bool" where
  "is_substr xs [] = (xs = [])"
| "is_substr xs (y # ys) = (is_prefix xs (y # ys) \<or> is_substr xs ys)"

text \<open>\<open>k in x\<close> for a string \<open>k\<close>: key of a dictionary, element of a list, substring of
  a string, and a \<open>TypeError\<close> on the values that are not containers.\<close>

fun py_contains :: "string \<Rightarrow> json \<Rightarrow> py_exn + bool" where
  "py_contains k (JObj kv) = Inr (has_key kv k)"
| "py_contains k (JArr xs) = Inr (JStr k \<in> set xs)"
| "py_contains k (JStr s) = Inr (is_substr k s)"
| "py_contains k _ = Inl TypeError"

text \<open>\<open>for x in v\<close>: the elements of a list, the keys of a dictionary, the characters of
  a string.\<close>

fun py_iter :: "json \<Rightarrow> py_exn + json list" where
  "py_iter (JArr xs) = Inr xs"
| "py_iter (JObj kv) = Inr (map (\<lambda>p. JStr (fst p)) kv)"
| "py_iter (JStr s) = Inr (map (\<lambda>c. JStr [c]) s)"
| "py_iter _ = Inl TypeError"

text \<open>\<open>len(v)\<close>: the containers and strings have a length.\<close>

fun py_len :: "json \<Rightarrow> py_exn + nat" where
  "py_len (JArr xs) = Inr (length xs)"
| "py_len (JObj kv) = Inr (length kv)"
| "py_len (JStr s) = Inr (length s)"
| "py_len _ = Inl TypeError"

text \<open>\<open>v[0]\<close>: the first element of a list, the first character of a string; a
  dictionary has no key \<open>0\<close> (its keys are strings), the other values cannot be
  subscripted.\<close>

fun py_first :: "json \<Rightarrow> py_exn + json" where
  "py_first (JArr []) = Inl IndexError"
| "py_first (JArr (x # xs)) = Inr x"
| "py_first (JStr []) = Inl IndexError"
| "py_first (JStr (c # s)) = Inr (JStr [c])"
| "py_first (JObj kv) = Inl KeyError"
| "py_first _ = Inl TypeError"

text \<open>
  \<open>float(n)\<close> for an \<open>int\<close>: the nearest double, ties to the even one, and an
  \<open>OverflowError\<close> when that is beyond the largest double: a double has 53 significant
  bits and the largest one is \<open>2^1024 - 2^971\<close>, so the conversion overflows from
  \<open>2^1024 - 2^970\<close> on.
\<close>

function bit_length :: "nat \<Rightarrow> nat" where
  "bit_length n = (if n = 0 then 0 else Suc (bit_length (n div 2)))"
  by pat_completeness auto
termination
  by (relation "measure id") auto

declare bit_length.simps [simp del]

definition nearest_double :: "nat \<Rightarrow> nat" where
  "nearest_double n =
     (if bit_length n \<le> 53 then n
      else
        (let e = bit_length n - 53;
             q = n div 2 ^ e;
             r = n mod 2 ^ e;
             half = 2 ^ (e - 1)
         in (if r > half \<or> (r = half \<and> odd q) then q + 1 else q) * 2 ^ e))"

definition float_of_int :: "int \<Rightarrow> py_exn + pyfloat" where
  "float_of_int i =
     (if 2 ^ 1024 - 2 ^ 970 \<le> \<bar>i\<bar> then Inl OverflowError
      else if i < 0 then Inr (Finite (- real (nearest_double (nat (- i)))))
      else Inr (Finite (real (nearest_double (nat i)))))"

text \<open>\<open>float(x)\<close>. The conversion of a string is Python's own parser, taken as the
  parameter \<open>sf\<close> (\<open>None\<close> where \<open>float\<close> raises \<open>ValueError\<close>).\<close>

fun py_float :: "(string \<Rightarrow> pyfloat option) \<Rightarrow> json \<Rightarrow> py_exn + pyfloat" where
  "py_float sf (JInt i) = float_of_int i"
| "py_float sf (JFloat x) = Inr x"
| "py_float sf (JBool b) = Inr (Finite (if b then 1 else 0))"
| "py_float sf (JStr s) = (case sf s of None \<Rightarrow> Inl ValueError | Some x \<Rightarrow> Inr x)"
| "py_float sf _ = Inl TypeError"

text \<open>\<open>x < c\<close> and \<open>x > c\<close> for a float \<open>x\<close> and a number \<open>c\<close>: every comparison
  with \<open>NaN\<close> is false.\<close>

fun float_less :: "pyfloat \<Rightarrow> real \<Rightarrow> bool" where
  "float_less (Finite r) c = (r < c)"
| "float_less NegInf c = True"
| "float_less PosInf c = False"
| "float_less NaN c = False"

fun float_greater :: "pyfloat \<Rightarrow> real \<Rightarrow> bool" where
  "float_greater (Finite r) c = (r > c)"
| "float_greater PosInf c = True"
| "float_greater NegInf c = False"
| "float_greater NaN c = False"

definition bind_exn :: "py_exn + 'a \<Rightarrow> ('a \<Rightarrow> py_exn + 'b) \<Rightarrow> py_exn + 'b" where
  "bind_exn m f = (case m of Inl e \<Rightarrow> Inl e | Inr x \<Rightarrow> f x)"

section \<open>Spam-content scanner (postmark\_checker.py)\<close>

text \<open>The score of a value that may carry it under the key \<open>score\<close> or \<open>Score\<close>
  (lines 111-115 for the body, 133-137 for a rule).\<close>

definition read_score :: "(string \<Rightarrow> pyfloat option) \<Rightarrow> json \<Rightarrow> py_exn + pyfloat" where
  "read_score sf v =
     bind_exn (py_contains ''score'' v) (\<lambda>lower.
       if lower then bind_exn (py_get v ''score'' (JInt 0)) (py_float sf)
       else bind_exn (py_contains ''Score'' v) (\<lambda>upper.
         if upper then bind_exn (py_get v ''Score'' (JInt 0)) (py_float sf)
         else Inr (Finite 0)))"

text \<open>Lines 121-128: the band of a score.\<close>

definition deliverability_band :: "real \<Rightarrow> string" where
  "deliverability_band score =
     (if score < 5 then ''Excellent''
      else if score < 10 then ''Good''
      else if score < 15 then ''Fair''
      else ''Poor'')"

text \<open>The same lines for the scores that are no real number: minus infinity is below
  5, and neither infinity nor \<open>NaN\<close> is below 5, 10 or 15.\<close>

definition deliverability_status :: "pyfloat \<Rightarrow> string" where
  "deliverability_status score =
     (case score of
        Finite s \<Rightarrow> deliverability_band s
      | NegInf \<Rightarrow> ''Excellent''
      | PosInf \<Rightarrow> ''Poor''
      | NaN \<Rightarrow> ''Poor'')"

record violation =
  v_rule :: json
  v_score :: pyfloat
  v_details :: json

text \<open>Lines 132-147: one pass of the loop over the rules.\<close>

definition rule_violation :: "(string \<Rightarrow> pyfloat option) \<Rightarrow> json \<Rightarrow> py_exn + violation list" where
  "rule_violation sf rule =
     bind_exn (read_score sf rule) (\<lambda>rule_score.
       if float_greater rule_score 0 then
         bind_exn (py_get rule ''description'' (JStr [])) (\<lambda>d1.
         bind_exn (py_get rule ''Description'' (JStr [])) (\<lambda>d2.
         bind_exn (py_get rule ''name'' (JStr [])) (\<lambda>d3.
         bind_exn (py_get rule ''details'' (JStr [])) (\<lambda>e1.
         bind_exn (py_get rule ''Details'' (JStr [])) (\<lambda>e2.
           Inr [\<lparr>v_rule = py_or d1 (py_or d2 (py_or d3 (JStr ''Unknown''))),
                 v_score = rule_score,
                 v_details = py_or e1 (py_or e2 (JStr []))\<rparr>])))))
       else Inr [])"

fun rule_violations :: "(string \<Rightarrow> pyfloat option) \<Rightarrow> json list \<Rightarrow> py_exn + violation list" where
  "rule_violations sf [] = Inr []"
| "rule_violations sf (r # rs) =
     bind_exn (rule_violation sf r) (\<lambda>v.
       bind_exn (rule_violations sf rs) (\<lambda>vs. Inr (v @ vs)))"

text \<open>Lines 131-147: the loop over whatever the body holds as its rules.\<close>

definition all_violations :: "(string \<Rightarrow> pyfloat option) \<Rightarrow> json \<Rightarrow> py_exn + violation list" where
  "all_violations sf rules = bind_exn (py_iter rules) (rule_violations sf)"

text \<open>
  What the scanner returns. \<open>PmSuccess\<close> is the dictionary with status \<open>success\<close>, with
  its \<open>spam_score\<close>, \<open>deliverability_status\<close>, \<open>rule_violations\<close> and \<open>report\<close> (the
  fields that repeat the arguments are left out). The three others have status \<open>error\<close>:
  \<open>PmParseError e raw\<close> with the error \<open>Failed to parse results: \<close> followed by the
  text of \<open>e\<close>, and the raw result (lines 168-172); \<open>PmHttpError code text\<close> with the
  error \<open>API request failed: \<close> followed by the code, and the text of the response as
  details (lines 92-96); \<open>PmException e\<close> with the text of \<open>e\<close> as error
  (lines 100-103).
\<close>

datatype pm_result =
    PmSuccess pyfloat string "violation list" json
  | PmParseError py_exn json
  | PmHttpError nat string
  | PmException py_exn

fun pm_status :: "pm_result \<Rightarrow> string" where
  "pm_status (PmSuccess sc band vs rep) = ''success''"
| "pm_status (PmParseError e raw) = ''error''"
| "pm_status (PmHttpError code details) = ''error''"
| "pm_status (PmException e) = ''error''"

text \<open>The body of the \<open>try\<close> of \<open>_parse_postmark_results\<close> (lines 109-164).\<close>

definition parse_body :: "(string \<Rightarrow> pyfloat option) \<Rightarrow> json \<Rightarrow> py_exn + pm_result" where
  "parse_body sf raw_result =
     bind_exn (read_score sf raw_result) (\<lambda>score.
     bind_exn (py_get raw_result ''rules'' (JArr [])) (\<lambda>r1.
     bind_exn (py_get raw_result ''Rules'' (JArr [])) (\<lambda>r2.
     bind_exn (py_get raw_result ''report'' (JStr [])) (\<lambda>p1.
     bind_exn (py_get raw_result ''Report'' (JStr [])) (\<lambda>p2.
     bind_exn (all_violations sf (py_or r1 r2)) (\<lambda>vs.
       Inr (PmSuccess score (deliverability_status score) vs (py_or p1 p2))))))))"

text \<open>\<open>_parse_postmark_results\<close>: any exception of the body becomes an error result
  (lines 166-172).\<close>

definition parse_postmark_results :: "(string \<Rightarrow> pyfloat option) \<Rightarrow> json \<Rightarrow> pm_result" where
  "parse_postmark_results sf raw_result =
     (case parse_body sf raw_result of
        Inl e \<Rightarrow> PmParseError e raw_result
      | Inr r \<Rightarrow> r)"

text \<open>What one HTTP exchange can give: a response with its status code, its text and
  its body (decoded, or \<open>None\<close> where \<open>response.json()\<close> raises), or an exception of the
  transport (a timeout, a refused connection).\<close>

datatype 'b http_outcome =
    Response nat string "'b option"
  | Transport string

text \<open>The body of the \<open>try\<close> of \<open>check_email_deliverability\<close> (lines 61-96), given
  the outcome of the request.\<close>

fun check_email_try :: "(string \<Rightarrow> pyfloat option) \<Rightarrow> json http_outcome \<Rightarrow> py_exn + pm_result" where
  "check_email_try sf (Response code txt body) =
     (if code = 200 then
        (case body of
           None \<Rightarrow> Inl ValueError
         | Some result \<Rightarrow> Inr (parse_postmark_results sf result))
      else Inr (PmHttpError code txt))"
| "check_email_try sf (Transport msg) = Inl (Raised msg)"

text \<open>\<open>check_email_deliverability\<close> (lines 46-103): \<open>Inr\<close> is a returned result,
  \<open>Inl\<close> an exception that leaves the client.\<close>

definition check_email_deliverability ::
  "(string \<Rightarrow> pyfloat option) \<Rightarrow> json http_outcome \<Rightarrow> py_exn + pm_result" where
  "check_email_deliverability sf outcome =
     (case check_email_try sf outcome of
        Inl e \<Rightarrow> Inr (PmException e)
      | Inr r \<Rightarrow> Inr r)"

section \<open>Rendering of integers and joined lists\<close>

text \<open>The decimal digits that an f-string writes for an \<open>int\<close>, and \<open>sep.join(xs)\<close>.\<close>

definition digit_char :: "nat \<Rightarrow> char" where
  "digit_char n = ''0123456789'' ! n"

function show_nat :: "nat \<Rightarrow> string" where
  "show_nat n = (if n < 10 then [digit_char n] else show_nat (n div 10) @ [digit_char (n mod 10)])"
  by pat_completeness auto
termination
  by (relation "measure id") auto

declare show_nat.simps [simp del]

definition show_int :: "int \<Rightarrow> string" where
  "show_int i = (if i < 0 then CHR ''-'' # show_nat (nat (- i)) else show_nat (nat i))"

fun join :: "string \<Rightarrow> string list \<Rightarrow> string" where
  "join sep [] = []"
| "join sep [x] = x"
| "join sep (x # y # ys) = x @ sep @ join sep (y # ys)"

section \<open>Blacklist provider client (blacklist\_checker.py)\<close>

text \<open>
  The body of a lookup in the provider's response format, as the client reads it: the
  number of detections, the lists consulted (each with its \<open>detected\<close> flag and its
  name or id) and the number of checks left; each key may be absent.
\<close>

record bl_entry =
  e_detected :: bool
  e_name :: "string option"
  e_id :: "string option"

record bl_body =
  b_detections :: "int option"
  b_blacklists :: "bl_entry list option"
  b_checks_remaining :: "int option"

text \<open>
  The dictionary a lookup returns, by its \<open>status\<close>: \<open>checked\<close> (with \<open>blacklisted\<close>,
  \<open>detections\<close>, the detected lists, the number of lists consulted and
  \<open>checks_remaining\<close>), \<open>failed\<close> (with the HTTP code), \<open>error\<close> (with the exception).
  \<open>BlFallback\<close> is the dictionary with status \<open>fallback\<close> that main.py builds itself
  (lines 182-192).
\<close>

datatype bl_result =
    BlChecked bool int "bl_entry list" nat int
  | BlFailed nat
  | BlError py_exn
  | BlFallback

text \<open>The body of the \<open>try\<close> of \<open>check_ip_blacklists\<close> (lines 39-74).\<close>

fun check_ip_try :: "bl_body http_outcome \<Rightarrow> py_exn + bl_result" where
  "check_ip_try (Response code txt body) =
     (if code = 200 then
        (case body of
           None \<Rightarrow> Inl ValueError
         | Some result \<Rightarrow>
             (let detections = (case b_detections result of None \<Rightarrow> 0 | Some d \<Rightarrow> d);
                  blacklists = (case b_blacklists result of None \<Rightarrow> [] | Some bs \<Rightarrow> bs);
                  checks_remaining = (case b_checks_remaining result of None \<Rightarrow> 0 | Some c \<Rightarrow> c);
                  detected_blacklists = filter e_detected blacklists
              in Inr (BlChecked (detections > 0) detections detected_blacklists
                        (length blacklists) checks_remaining)))
      else if txt \<noteq> [] \<and> body = None then Inl ValueError
      else Inr (BlFailed code))"
| "check_ip_try (Transport msg) = Inl (Raised msg)"

text \<open>\<open>check_ip_blacklists\<close> (lines 33-84): \<open>Inr\<close> is the returned dictionary, \<open>Inl\<close> an
  exception that leaves the client.\<close>

definition check_ip_blacklists :: "bl_body http_outcome \<Rightarrow> py_exn + bl_result" where
  "check_ip_blacklists outcome =
     (case check_ip_try outcome of
        Inl e \<Rightarrow> Inr (BlError e)
      | Inr r \<Rightarrow> Inr r)"

text \<open>\<open>check_domain_blacklists\<close> (lines 86-139) has the same branches.\<close>

fun check_domain_try :: "bl_body http_outcome \<Rightarrow> py_exn + bl_result" where
  "check_domain_try (Response code txt body) =
     (if code = 200 then
        (case body of
           None \<Rightarrow> Inl ValueError
         | Some result \<Rightarrow>
             (let detections = (case b_detections result of None \<Rightarrow> 0 | Some d \<Rightarrow> d);
                  blacklists = (case b_blacklists result of None \<Rightarrow> [] | Some bs \<Rightarrow> bs);
                  checks_remaining = (case b_checks_remaining result of None \<Rightarrow> 0 | Some c \<Rightarrow> c);
                  detected_blacklists = filter e_detected blacklists
              in Inr (BlChecked (detections > 0) detections detected_blacklists
                        (length blacklists) checks_remaining)))
      else if txt \<noteq> [] \<and> body = None then Inl ValueError
      else Inr (BlFailed code))"
| "check_domain_try (Transport msg) = Inl (Raised msg)"

definition check_domain_blacklists :: "bl_body http_outcome \<Rightarrow> py_exn + bl_result" where
  "check_domain_blacklists outcome =
     (case check_domain_try outcome of
        Inl e \<Rightarrow> Inr (BlError e)
      | Inr r \<Rightarrow> Inr r)"

section \<open>The field map of the blacklist step (main.py, lines 116-175)\<close>

text \<open>The reads main.py makes of a lookup's dictionary.\<close>

fun bl_status :: "bl_result \<Rightarrow> string" where
  "bl_status (BlChecked b d ls n c) = ''checked''"
| "bl_status (BlFailed code) = ''failed''"
| "bl_status (BlError e) = ''error''"
| "bl_status BlFallback = ''fallback''"

fun bl_detections :: "bl_result \<Rightarrow> int" where
  "bl_detections (BlChecked b d ls n c) = d"
| "bl_detections _ = 0"

fun bl_blacklisted :: "bl_result \<Rightarrow> bool" where
  "bl_blacklisted (BlChecked b d ls n c) = b"
| "bl_blacklisted _ = False"

fun bl_blacklists :: "bl_result \<Rightarrow> bl_entry list" where
  "bl_blacklists (BlChecked b d ls n c) = ls"
| "bl_blacklists _ = []"

fun bl_checks_remaining :: "bl_result \<Rightarrow> string" where
  "bl_checks_remaining (BlChecked b d ls n c) = show_int c"
| "bl_checks_remaining _ = ''Unknown''"

text \<open>\<open>bl.get('name', bl.get('id', 'Unknown'))\<close>.\<close>

definition entry_name :: "bl_entry \<Rightarrow> string" where
  "entry_name bl =
     (case e_name bl of
        Some n \<Rightarrow> n
      | None \<Rightarrow> (case e_id bl of Some i \<Rightarrow> i | None \<Rightarrow> ''Unknown''))"

text \<open>A property of a page, as the record store takes it. \<open>RichOf\<close> and \<open>NumberOf\<close>
  are a rich text and a number written with a value that the code passes on as it got
  it.\<close>

datatype notion_prop =
    RichText string
  | Select string
  | Number real
  | Relation "string list"
  | Title string
  | RichOf json
  | NumberOf json

type_synonym fields = "string \<rightharpoonup> notion_prop"

text \<open>The text of a rich-text field of a field map, and the empty string when the
  field is not there.\<close>

definition content_of :: "fields \<Rightarrow> string \<Rightarrow> string" where
  "content_of fs k = (case fs k of Some (RichText s) \<Rightarrow> s | _ \<Rightarrow> [])"

text \<open>Lines 119-132.\<close>

definition ip_fields :: "bl_result \<Rightarrow> fields \<Rightarrow> fields" where
  "ip_fields ip fs =
     (if bl_status ip = ''fallback'' then
        fs(''IP Blacklist Status'' \<mapsto> RichText ''Fallback - Check Failed'',
           ''Issues Found'' \<mapsto> RichText ''IP Blacklist check failed, using fallback values'')
      else if bl_blacklisted ip then
        (let detected_bls = map entry_name (bl_blacklists ip);
             fs1 = fs(''IP Blacklist Status'' \<mapsto>
                      RichText (''BLACKLISTED ('' @ show_int (bl_detections ip)
                                @ '' detections): '' @ join '', '' detected_bls))
         in if detected_bls \<noteq> [] then
              fs1(''Issues Found'' \<mapsto> RichText (''IP Blacklisted on: '' @ join '', '' detected_bls))
            else fs1)
      else fs(''IP Blacklist Status'' \<mapsto> RichText (''Detections: '' @ show_int (bl_detections ip))))"

text \<open>Lines 135-162.\<close>

definition add_issue :: "string \<Rightarrow> fields \<Rightarrow> fields" where
  "add_issue domain_issues fs =
     (let current_issues = content_of fs ''Issues Found''
      in if current_issues \<noteq> [] then
           fs(''Issues Found'' \<mapsto> RichText (current_issues @ ''; '' @ domain_issues))
         else fs(''Issues Found'' \<mapsto> RichText domain_issues))"

definition domain_fields :: "bl_result \<Rightarrow> fields \<Rightarrow> fields" where
  "domain_fields dres fs =
     (if bl_status dres = ''fallback'' then
        add_issue ''Domain Blacklist check failed, using fallback values''
          (if fs ''Domain Blacklist Status'' = None then
             fs(''Domain Blacklist Status'' \<mapsto> RichText ''Fallback - Check Failed'')
           else fs)
      else if bl_blacklisted dres then
        (let detected_bls = map entry_name (bl_blacklists dres);
             fs1 = fs(''Domain Blacklist Status'' \<mapsto>
                      RichText (''BLACKLISTED ('' @ show_int (bl_detections dres)
                                @ '' detections): '' @ join '', '' detected_bls))
         in if detected_bls \<noteq> [] then
              add_issue (''Domain Blacklisted on: '' @ join '', '' detected_bls) fs1
            else fs1)
      else fs(''Domain Blacklist Status'' \<mapsto>
                RichText (''Detections: '' @ show_int (bl_detections dres))))"

text \<open>Lines 165-175.\<close>

definition raw_output_field :: "bl_result \<Rightarrow> bl_result \<Rightarrow> fields \<Rightarrow> fields" where
  "raw_output_field ip dres fs =
     (let ip_checks = (if bl_status ip = ''fallback'' then ''Fallback - Check Failed''
                       else bl_checks_remaining ip);
          domain_checks = (if bl_status dres = ''fallback'' then ''Fallback - Check Failed''
                           else bl_checks_remaining dres)
      in fs(''Raw JSON Output'' \<mapsto>
              RichText (''IP Checks Remaining: '' @ ip_checks
                        @ '', Domain Checks Remaining: '' @ domain_checks)))"

text \<open>The field map written at line 195, from the two dictionaries the client returned.
  The replacement of a failed dictionary by one with status \<open>fallback\<close> (lines 178-192)
  comes after the map is built and before it is written, and the map does not read it.\<close>

definition blacklist_properties :: "bl_result \<Rightarrow> bl_result \<Rightarrow> fields" where
  "blacklist_properties ip dres = raw_output_field ip dres (domain_fields dres (ip_fields ip Map.empty))"

section \<open>Seed-list chunking (main.py, lines 230-245)\<close>

definition chunk_size :: nat where
  "chunk_size = 25"

definition max_chunks :: nat where
  "max_chunks = 5"

text \<open>\<open>range(0, len(seed_list), chunk_size)\<close>.\<close>

definition chunk_starts :: "'a list \<Rightarrow> nat list" where
  "chunk_starts seed_list =
     map (\<lambda>k. k * chunk_size) [0 ..< (length seed_list + chunk_size - 1) div chunk_size]"

text \<open>The slices \<open>seed_list[i:i + chunk_size]\<close> of the loop, before they are joined.\<close>

definition seed_slices :: "'a list \<Rightarrow> 'a list list" where
  "seed_slices seed_list = map (\<lambda>i. take chunk_size (drop i seed_list)) (chunk_starts seed_list)"

definition split_seed_list :: "string list \<Rightarrow> string list" where
  "split_seed_list seed_list =
     (if seed_list = [] then replicate max_chunks ''Failed to retrieve''
      else
        (let chunks = map (join '', '') (seed_slices seed_list);
             padded = chunks @ replicate (max_chunks - length chunks) []
         in take max_chunks padded))"

section \<open>Placement-test provider client (glockapps\_api.py)\<close>

text \<open>
  The client keeps the index of the header variant that was accepted last
  (\<open>current_header_index\<close>; \<open>headers\<close> is the variant at that index). \<open>sent\<close> is not a
  field of the source: it records, in order, the header variant of every request the
  client has sent, so that properties of the traffic can be stated.
\<close>

record client =
  current_header_index :: nat
  sent :: "nat list"

definition headers_variants :: "nat list" where
  "headers_variants = [0, 1, 2, 3]"

type_synonym 'b response = "nat \<times> string \<times> 'b option"

text \<open>The loop of \<open>_make_request_with_retry\<close> (lines 96-115) over the variants that are
  left; \<open>srv i\<close> is the outcome of the request sent with variant \<open>i\<close>.\<close>

fun try_variants ::
  "(nat \<Rightarrow> 'b http_outcome) \<Rightarrow> nat list \<Rightarrow> client \<Rightarrow> 'b response option \<times> client" where
  "try_variants srv [] c = (None, c)"
| "try_variants srv (i # rest) c =
     (case srv i of
        Transport msg \<Rightarrow> try_variants srv rest (c\<lparr>sent := sent c @ [i]\<rparr>)
      | Response code txt body \<Rightarrow>
          if code = 200 \<or> code = 201 then
            (Some (code, txt, body), c\<lparr>sent := sent c @ [i], current_header_index := i\<rparr>)
          else if (code = 401 \<or> code = 500) \<and> is_substr ''No API key provided'' txt then
            try_variants srv rest (c\<lparr>sent := sent c @ [i]\<rparr>)
          else (Some (code, txt, body), c\<lparr>sent := sent c @ [i]\<rparr>))"

text \<open>\<open>_make_request_with_retry\<close> (lines 94-118).\<close>

definition make_request_with_retry ::
  "(nat \<Rightarrow> 'b http_outcome) \<Rightarrow> client \<Rightarrow> 'b response option \<times> client" where
  "make_request_with_retry srv c = try_variants srv headers_variants c"

text \<open>
  \<open>if not response\<close> holds for \<open>None\<close> and for a response that is not \<open>ok\<close>: the
  \<open>requests\<close> library gives a response the truth value of \<open>response.ok\<close>, which is
  false for the error codes, 400 to 599.
\<close>

definition response_ok :: "nat \<Rightarrow> bool" where
  "response_ok code = (\<not> (400 \<le> code \<and> code < 600))"

text \<open>
  The provider, one request at a time: the endpoint (with the project id and the test id
  of its path) and the header variant give the outcome. The path is written from
  \<open>str(project_id)\<close>, a text that the value of the project id determines; the provider is
  given the value.
\<close>

record gl_server =
  projects :: "nat \<Rightarrow> json http_outcome"
  manual_test :: "json \<Rightarrow> nat \<Rightarrow> json http_outcome"
  tests :: "json \<Rightarrow> string \<Rightarrow> nat \<Rightarrow> json http_outcome"

text \<open>\<open>a or b\<close> and \<open>if a\<close> on optional strings, as the orchestrator uses them.\<close>

definition opt_or :: "string option \<Rightarrow> string option \<Rightarrow> string option" where
  "opt_or a b = (case a of Some s \<Rightarrow> (if s \<noteq> [] then Some s else b) | None \<Rightarrow> b)"

definition opt_truthy :: "string option \<Rightarrow> bool" where
  "opt_truthy a = (case a of Some s \<Rightarrow> s \<noteq> [] | None \<Rightarrow> False)"

text \<open>Lines 135-141 of \<open>_get_project_id\<close>: the projects of a decoded body, \<open>None\<close> for
  an unexpected structure.\<close>

definition projects_of :: "json \<Rightarrow> json option" where
  "projects_of result =
     (case result of
        JObj kv \<Rightarrow> (if has_key kv ''results'' then map_of kv ''results'' else None)
      | JArr xs \<Rightarrow> Some result
      | _ \<Rightarrow> None)"

text \<open>Lines 143-156: the id of the first project, \<open>None\<close> when there is no project or
  no id; what Python raises on the way is the \<open>Inl\<close>.\<close>

definition first_project_id :: "json \<Rightarrow> py_exn + json option" where
  "first_project_id result =
     (case projects_of result of
        None \<Rightarrow> Inr None
      | Some project_list \<Rightarrow>
          if truthy project_list then
            bind_exn (py_first project_list) (\<lambda>project.
            bind_exn (py_get project ''id'' JNull) (\<lambda>a.
            bind_exn (py_get project ''projectId'' JNull) (\<lambda>b.
              (let project_id = py_or a b
               in Inr (if truthy project_id then Some project_id else None)))))
          else Inr None)"

text \<open>\<open>_get_project_id\<close> (lines 120-163): every failure is \<open>None\<close>, an exception
  included. The result is the value whose text the source returns.\<close>

definition get_project_id :: "gl_server \<Rightarrow> client \<Rightarrow> json option \<times> client" where
  "get_project_id srv c =
     (case make_request_with_retry (projects srv) c of
        (None, c1) \<Rightarrow> (None, c1)
      | (Some (code, txt, body), c1) \<Rightarrow>
          if \<not> response_ok code then (None, c1)
          else if code = 200 then
            (case body of
               None \<Rightarrow> (None, c1)
             | Some result \<Rightarrow>
                 (case first_project_id result of
                    Inl e \<Rightarrow> (None, c1)
                  | Inr project_id \<Rightarrow> (project_id, c1)))
          else (None, c1))"

text \<open>The dictionary \<open>create_test\<close> returns: the test id and the seed addresses as the
  body had them (the status \<open>created\<close> and the copy of the body are left out).\<close>

record created =
  test_id :: json
  emails :: json

text \<open>Lines 192-206: the reading of the body of the creation. The log line of line 198
  takes the length of the addresses.\<close>

definition read_created :: "json \<Rightarrow> py_exn + created" where
  "read_created result =
     bind_exn (py_get result ''testId'' JNull) (\<lambda>tid.
     bind_exn (py_get result ''emails'' (JArr [])) (\<lambda>es.
       if truthy tid then
         bind_exn (py_len es) (\<lambda>n. Inr \<lparr>test_id = tid, emails = es\<rparr>)
       else Inl (RaisedWith ''No test ID in response: '' result)))"

text \<open>\<open>create_test\<close> (lines 165-212): \<open>Inr\<close> is the returned dictionary, \<open>Inl\<close> the
  exception that the \<open>except\<close> clause raises again.\<close>

definition create_test :: "gl_server \<Rightarrow> client \<Rightarrow> (py_exn + created) \<times> client" where
  "create_test srv c =
     (case get_project_id srv c of
        (None, c1) \<Rightarrow> (Inl (Raised ''Could not retrieve project ID from GlockApps''), c1)
      | (Some project_id, c1) \<Rightarrow>
          (case make_request_with_retry (manual_test srv project_id) c1 of
             (None, c2) \<Rightarrow> (Inl (Raised ''API request failed: No response''), c2)
           | (Some (code, txt, body), c2) \<Rightarrow>
               if \<not> response_ok code then (Inl (Raised ''API request failed: No response''), c2)
               else if code = 200 \<or> code = 201 then
                 (case body of
                    None \<Rightarrow> (Inl ValueError, c2)
                  | Some result \<Rightarrow> (read_created result, c2))
               else
                 (Inl (Raised (''API request failed: '' @ show_nat code @ '' - '' @ txt)), c2)))"











section \<open>Record store and the world of the orchestrator (notion\_manager.py, main.py)\<close>

text \<open>
  The orchestrator acts on a world: the pages of the record store in the order a query
  returns them (page id and properties), the content blocks of each page, the screenshot
  directories on disk (by domain), the tracking dictionary \<open>_test_tracking\<close> and the
  state of the placement-test client. The properties of a page are the dictionary the
  store returns for it: each property is a decoded value, read by the source through
  chains of \<open>get\<close>. \<open>calls\<close> is not in the source: it records, in order, the steps
  taken towards the outside (the call of \<open>get_test_report\<close> for a page, the poll of a
  test id, the spam-content scan for a page, the launch of the scraper for a domain).
  The blocks of a report are kept as one token, the templates being of no concern here.
\<close>

datatype block = AuditReport | FinalReport | Paragraph string | Heading string | Image string

datatype call = Attempt string | Poll string | Scan string | Scrape string

record tracking_entry =
  not_delivered_history :: "json list"
  last_check_time :: real

type_synonym props = "string \<rightharpoonup> json"

record world =
  pages :: "(string \<times> props) list"
  content :: "string \<Rightarrow> block list"
  dirs :: "string list"
  test_tracking :: "string \<rightharpoonup> tracking_entry"
  glockapps :: client
  calls :: "call list"

text \<open>
  What the outside answers during one pass: the domain name behind a relation id
  (\<open>get_domain_info\<close>, \<open>None\<close> on any failure); the address of a domain
  (\<open>socket.gethostbyname\<close>: an address, \<open>None\<close> for the \<open>gaierror\<close> that
  \<open>get_domain_ip\<close> catches, or another exception, which it does not catch); the
  outcomes of the two blacklist requests; the placement-test provider; the outcome of
  the spam-content request made for a domain with the two placement rates of its sample
  email; Python's conversion of strings to floats, its text for a value (\<open>str\<close>) and
  for an exception of its own; the exit code of the scraper for a domain (\<open>None\<close> when
  the launch itself raises), whether the scraper leaves a directory behind and whether
  the directory can be deleted; the screenshots its manifest lists (\<open>None\<close> when there is
  no manifest or it cannot be read) and whether the upload of images to a page succeeds;
  whether the final report of a page can be generated; whether the store accepts an
  update of a page with given properties (\<open>pages.update\<close>), a query by status, the
  retrieval of a page, and the listing, the deletion and the appending of the blocks of
  a page; and the clock (\<open>time.time()\<close>).
\<close>

record env =
  domain_info :: "json \<Rightarrow> string option"
  dns :: "string \<Rightarrow> py_exn + string option"
  ip_lookup :: "string \<Rightarrow> bl_body http_outcome"
  domain_lookup :: "string \<Rightarrow> bl_body http_outcome"
  provider :: gl_server
  spam_scan :: "string \<Rightarrow> json \<Rightarrow> json \<Rightarrow> json http_outcome"
  str_float :: "string \<Rightarrow> pyfloat option"
  py_str :: "json \<Rightarrow> string"
  builtin_text :: "py_exn \<Rightarrow> string"
  scraper_exit :: "string \<Rightarrow> int option"
  scraper_leaves_dir :: "string \<Rightarrow> bool"
  rmtree_ok :: "string \<Rightarrow> bool"
  manifest_images :: "string \<Rightarrow> string list option"
  upload_ok :: "string \<Rightarrow> bool"
  report_ok :: "string \<Rightarrow> bool"
  accepts :: "string \<Rightarrow> fields \<Rightarrow> bool"
  query_ok :: "string \<Rightarrow> bool"
  retrieve_ok :: "string \<Rightarrow> bool"
  list_ok :: "string \<Rightarrow> bool"
  delete_ok :: "string \<Rightarrow> block \<Rightarrow> bool"
  append_ok :: "string \<Rightarrow> block list \<Rightarrow> bool"
  clock :: real

text \<open>The value the store returns for a property that was written: the store is taken
  to answer a read with what the update gave it.\<close>

fun stored :: "notion_prop \<Rightarrow> json" where
  "stored (RichText s) = JObj [(''rich_text'', JArr [JObj [(''text'', JObj [(''content'', JStr s)])]])]"
| "stored (RichOf v) = JObj [(''rich_text'', JArr [JObj [(''text'', JObj [(''content'', v)])]])]"
| "stored (Select s) = JObj [(''select'', JObj [(''name'', JStr s)])]"
| "stored (Number r) = JObj [(''number'', JFloat (Finite r))]"
| "stored (NumberOf v) = JObj [(''number'', v)]"
| "stored (Relation rs) = JObj [(''relation'', JArr (map (\<lambda>r. JObj [(''id'', JStr r)]) rs))]"
| "stored (Title s) = JObj [(''title'', JArr [JObj [(''plain_text'', JStr s)]])]"

definition stored_fields :: "fields \<Rightarrow> props" where
  "stored_fields properties = (\<lambda>k. map_option stored (properties k))"

text \<open>\<open>update_audit_fields\<close> (notion\_manager.py, lines 34-42): the properties are
  merged into the page when the store accepts the update; a refused update is logged,
  answered \<open>False\<close> and changes nothing. No caller in main.py reads the answer.\<close>

definition update_audit_fields :: "env \<Rightarrow> string \<Rightarrow> fields \<Rightarrow> world \<Rightarrow> world" where
  "update_audit_fields ev page_id properties w =
     (if accepts ev page_id properties then
        w\<lparr>pages := map (\<lambda>p. if fst p = page_id then (fst p, snd p ++ stored_fields properties)
                             else p) (pages w)\<rparr>
      else w)"

text \<open>The pages a query by status returns (the filter is the store's), and the
  properties a retrieval returns.\<close>

definition with_status :: "string \<Rightarrow> world \<Rightarrow> (string \<times> props) list" where
  "with_status st w = filter (\<lambda>p. snd p ''Audit Status'' = Some (stored (Select st))) (pages w)"

definition page_props :: "world \<Rightarrow> string \<Rightarrow> props" where
  "page_props w page_id = (case map_of (pages w) page_id of Some fs \<Rightarrow> fs | None \<Rightarrow> Map.empty)"


text \<open>The reads of the properties of a page: \<open>props.get(k, {})\<close>;
  \<open>props.get("Audit ID", {}).get("title", [{}])[0].get("plain_text", "Unknown")\<close>;
  \<open>props.get("Domain", {}).get("relation", [])\<close>;
  \<open>props.get(k, {}).get("rich_text", [{}])[0].get("text", {}).get("content", "")\<close>;
  \<open>props.get(k, {}).get("number", 0)\<close>.\<close>

definition prop_get :: "props \<Rightarrow> string \<Rightarrow> json" where
  "prop_get ps k = (case ps k of None \<Rightarrow> JObj [] | Some v \<Rightarrow> v)"

definition audit_title :: "props \<Rightarrow> py_exn + json" where
  "audit_title ps =
     bind_exn (py_get (prop_get ps ''Audit ID'') ''title'' (JArr [JObj []])) (\<lambda>title.
     bind_exn (py_first title) (\<lambda>x. py_get x ''plain_text'' (JStr ''Unknown'')))"

definition domain_relation :: "props \<Rightarrow> py_exn + json" where
  "domain_relation ps = py_get (prop_get ps ''Domain'') ''relation'' (JArr [])"

definition rich_text_content :: "props \<Rightarrow> string \<Rightarrow> py_exn + json" where
  "rich_text_content ps k =
     bind_exn (py_get (prop_get ps k) ''rich_text'' (JArr [JObj []])) (\<lambda>rich_text.
     bind_exn (py_first rich_text) (\<lambda>x.
     bind_exn (py_get x ''text'' (JObj [])) (\<lambda>t. py_get t ''content'' (JStr []))))"

definition number_of :: "props \<Rightarrow> string \<Rightarrow> py_exn + json" where
  "number_of ps k = py_get (prop_get ps k) ''number'' (JInt 0)"

text \<open>\<open>v[k]\<close> for a string \<open>k\<close>: the value under a key of a dictionary.\<close>

fun py_item :: "json \<Rightarrow> string \<Rightarrow> py_exn + json" where
  "py_item (JObj kv) k = (case map_of kv k of None \<Rightarrow> Inl KeyError | Some v \<Rightarrow> Inr v)"
| "py_item v k = Inl TypeError"

text \<open>\<open>domain_relation[0]["id"]\<close>.\<close>

definition first_relation_id :: "json \<Rightarrow> py_exn + json" where
  "first_relation_id rel = bind_exn (py_first rel) (\<lambda>r. py_item r ''id'')"

text \<open>The text an f-string writes for a value and \<open>str(e)\<close> for an exception: a string
  is its own text and \<open>Exception(m)\<close> has the text \<open>m\<close>; the other texts are Python's.\<close>

definition text_of :: "env \<Rightarrow> json \<Rightarrow> string" where
  "text_of ev v = (case v of JStr s \<Rightarrow> s | _ \<Rightarrow> py_str ev v)"

definition exn_text :: "env \<Rightarrow> py_exn \<Rightarrow> string" where
  "exn_text ev e =
     (case e of
        Raised m \<Rightarrow> m
      | RaisedWith m v \<Rightarrow> m @ text_of ev v
      | _ \<Rightarrow> builtin_text ev e)"

text \<open>A rich-text property with a given content, and a number property with a given
  number.\<close>

definition rich_of :: "json \<Rightarrow> notion_prop" where
  "rich_of v = (case v of JStr s \<Rightarrow> RichText s | _ \<Rightarrow> RichOf v)"

section \<open>Steps 1 and 2 of an audit (main.py, process\_single\_audit)\<close>

text \<open>Lines 93-103: the address cannot be resolved.\<close>

definition error_properties :: "string \<Rightarrow> fields" where
  "error_properties domain_name =
     Map.empty(''IP Blacklist Status'' \<mapsto> RichText ''Error: Could not resolve IP'',
               ''Domain Blacklist Status'' \<mapsto> RichText ''Error: Could not resolve IP'',
               ''Audit Status'' \<mapsto> Select ''Error'',
               ''Error Log'' \<mapsto> RichText (''Failed to resolve IP for domain '' @ domain_name))"

text \<open>Lines 230-245 on the value the provider gave as seed list: an empty value gives
  the five sentinels; a list is sliced and each slice joined, which raises when an
  element is no string; a string is a sequence of characters; a dictionary cannot be
  sliced; a number has no length.\<close>

fun is_str :: "json \<Rightarrow> bool" where
  "is_str (JStr s) = True"
| "is_str v = False"

fun str_of :: "json \<Rightarrow> string" where
  "str_of (JStr s) = s"
| "str_of v = []"

definition seed_chunks_of :: "json \<Rightarrow> py_exn + string list" where
  "seed_chunks_of seed_list =
     (if \<not> truthy seed_list then Inr (split_seed_list [])
      else
        (case seed_list of
           JArr xs \<Rightarrow> if list_all is_str xs then Inr (split_seed_list (map str_of xs))
                      else Inl TypeError
         | JStr s \<Rightarrow> Inr (split_seed_list (map (\<lambda>c. [c]) s))
         | _ \<Rightarrow> Inl TypeError))"

text \<open>Lines 249-257 and 267-270: the test was created.\<close>

definition update_properties :: "json \<Rightarrow> string list \<Rightarrow> fields" where
  "update_properties tid seed_chunks =
     Map.empty(''GlockApps Test ID'' \<mapsto> rich_of tid,
               ''GlockApps Seed List 1'' \<mapsto> RichText (seed_chunks ! 0),
               ''GlockApps Seed List 2'' \<mapsto> RichText (seed_chunks ! 1),
               ''GlockApps Seed List 3'' \<mapsto> RichText (seed_chunks ! 2),
               ''GlockApps Seed List 4'' \<mapsto> RichText (seed_chunks ! 3),
               ''GlockApps Seed List 5'' \<mapsto> RichText (seed_chunks ! 4),
               ''Audit Status'' \<mapsto> Select ''Test Created'')"

definition email_status_properties :: "env \<Rightarrow> json \<Rightarrow> nat \<Rightarrow> fields" where
  "email_status_properties ev tid n =
     Map.empty(''Audit Status'' \<mapsto> Select ''Awaiting Email Sending'',
               ''Error Log'' \<mapsto> RichText (''Ready for manual email sending. Seed list: ''
                  @ show_nat n @ '' addresses. Test ID: '' @ text_of ev tid))"

text \<open>Lines 285-300: the creation raised.\<close>

definition fallback_test_id :: "env \<Rightarrow> string" where
  "fallback_test_id ev = ''fallback_'' @ show_int (floor (clock ev))"

definition fallback_properties :: "env \<Rightarrow> py_exn \<Rightarrow> fields" where
  "fallback_properties ev e =
     Map.empty(''GlockApps Test ID'' \<mapsto> RichText (fallback_test_id ev),
               ''GlockApps Seed List 1'' \<mapsto> RichText ''Fallback - GlockApps failed'',
               ''GlockApps Seed List 2'' \<mapsto> RichText [],
               ''GlockApps Seed List 3'' \<mapsto> RichText [],
               ''GlockApps Seed List 4'' \<mapsto> RichText [],
               ''GlockApps Seed List 5'' \<mapsto> RichText [],
               ''Audit Status'' \<mapsto> Select ''GlockApps Completed'',
               ''Inbox Placement %'' \<mapsto> Number 0,
               ''Spam Placement %'' \<mapsto> Number 0,
               ''Error Log'' \<mapsto> RichText (''GlockApps Error: '' @ exn_text ev e
                  @ '' - Using fallback values''))"

text \<open>Lines 210-273: what follows a created test inside the \<open>try\<close>; \<open>Inl\<close> is an
  exception, raised before anything is written.\<close>

definition record_created_test :: "env \<Rightarrow> string \<Rightarrow> created \<Rightarrow> world \<Rightarrow> py_exn + world" where
  "record_created_test ev page_id test_result w =
     (let tid = py_or (test_id test_result) JNull
      in if \<not> truthy tid then Inr w
         else
           bind_exn (py_len (emails test_result)) (\<lambda>n0.
             (let seed_list = (if truthy (emails test_result) then emails test_result else JArr [])
              in bind_exn (seed_chunks_of seed_list) (\<lambda>seed_chunks.
                 bind_exn (py_len seed_list) (\<lambda>n.
                   Inr (update_audit_fields ev page_id (email_status_properties ev tid n)
                          (update_audit_fields ev page_id (update_properties tid seed_chunks) w)))))))"

text \<open>Lines 198-310: step 2, the creation of the placement test, with its \<open>except\<close>
  branch.\<close>

definition create_test_step :: "env \<Rightarrow> string \<Rightarrow> world \<Rightarrow> world" where
  "create_test_step ev page_id w =
     (case create_test (provider ev) (glockapps w) of
        (Inr test_result, c) \<Rightarrow>
          (case record_created_test ev page_id test_result (w\<lparr>glockapps := c\<rparr>) of
             Inr w1 \<Rightarrow> w1
           | Inl e \<Rightarrow> update_audit_fields ev page_id (fallback_properties ev e) (w\<lparr>glockapps := c\<rparr>))
      | (Inl e, c) \<Rightarrow>
          update_audit_fields ev page_id (fallback_properties ev e) (w\<lparr>glockapps := c\<rparr>))"

text \<open>\<open>process_single_audit\<close> (lines 65-310) on a page as the query returned it. The
  first component is the exception that leaves the function, if any: nothing before
  step 2 is inside a \<open>try\<close>.\<close>

definition process_single_audit :: "env \<Rightarrow> string \<times> props \<Rightarrow> world \<Rightarrow> py_exn option \<times> world" where
  "process_single_audit ev audit w =
     (case audit_title (snd audit) of
        Inl e \<Rightarrow> (Some e, w)
      | Inr audit_id \<Rightarrow>
     (case domain_relation (snd audit) of
        Inl e \<Rightarrow> (Some e, w)
      | Inr rel \<Rightarrow>
          if \<not> truthy rel then (None, w)
          else
     (case first_relation_id rel of
        Inl e \<Rightarrow> (Some e, w)
      | Inr domain_relation_id \<Rightarrow>
          if \<not> opt_truthy (domain_info ev domain_relation_id) then (None, w)
          else
            (let domain_name = the (domain_info ev domain_relation_id)
             in case dns ev domain_name of
                  Inl e \<Rightarrow> (Some e, w)
                | Inr ip_address \<Rightarrow>
                    if \<not> opt_truthy ip_address then
                      (None, update_audit_fields ev (fst audit) (error_properties domain_name) w)
                    else
                      (case check_ip_blacklists (ip_lookup ev (the ip_address)) of
                         Inl e \<Rightarrow> (Some e, w)
                       | Inr ip_blacklist_result \<Rightarrow>
                           (case check_domain_blacklists (domain_lookup ev domain_name) of
                              Inl e \<Rightarrow> (Some e, w)
                            | Inr domain_blacklist_result \<Rightarrow>
                                (None,
                                 create_test_step ev (fst audit)
                                   (update_audit_fields ev (fst audit)
                                      (blacklist_properties ip_blacklist_result
                                         domain_blacklist_result)
                                      w))))))))"

text \<open>\<open>process_running_audits\<close> (lines 43-63): one record in status Running, if any.
  The log line of line 55 reads the title outside the \<open>try\<close>; an exception of
  \<open>process_single_audit\<close> is caught and answered \<open>False\<close>.\<close>

definition process_running_audits :: "env \<Rightarrow> world \<Rightarrow> (py_exn + bool) \<times> world" where
  "process_running_audits ev w =
     (case (if query_ok ev ''Running'' then with_status ''Running'' w else []) of
        [] \<Rightarrow> (Inr False, w)
      | audit # rest \<Rightarrow>
          (case audit_title (snd audit) of
             Inl e \<Rightarrow> (Inl e, w)
           | Inr audit_id \<Rightarrow>
               (case process_single_audit ev audit w of
                  (None, w1) \<Rightarrow> (Inr True, w1)
                | (Some e, w1) \<Rightarrow> (Inr False, w1))))"

section \<open>An outside where every step succeeds\<close>





section \<open>Properties of the spam-content scanner\<close>



lemma read_score_absent:
  "map_of kv ''score'' = None \<Longrightarrow> map_of kv ''Score'' = None \<Longrightarrow>
   read_score sf (JObj kv) = Inr (Finite 0)"
  by (simp add: read_score_def bind_exn_def has_key_def)

lemma parse_without_score:
  assumes "map_of kv ''score'' = None" and "map_of kv ''Score'' = None"
  shows "check_email_deliverability sf (Response 200 txt (Some (JObj kv))) =
     (case all_violations sf (py_or (dict_get kv ''rules'' (JArr [])) (dict_get kv ''Rules'' (JArr []))) of
        Inr vs \<Rightarrow> Inr (PmSuccess (Finite 0) ''Excellent'' vs
                    (py_or (dict_get kv ''report'' (JStr [])) (dict_get kv ''Report'' (JStr []))))
      | Inl e \<Rightarrow> Inr (PmParseError e (JObj kv)))"
  using assms
  by (simp add: check_email_deliverability_def parse_postmark_results_def parse_body_def
      read_score_absent bind_exn_def deliverability_status_def deliverability_band_def
      split: sum.splits)

lemma rule_violations_raise:
  "r \<in> set rs \<Longrightarrow> rule_violation sf r = Inl e \<Longrightarrow> \<exists>e'. rule_violations sf rs = Inl e'"
proof (induction rs)
  case Nil
  then show ?case by simp
next
  case (Cons a rs)
  show ?case
  proof (cases "rule_violation sf a")
    case (Inl e1)
    then show ?thesis by (simp add: bind_exn_def)
  next
    case (Inr v)
    with Cons.prems have "r \<in> set rs" by auto
    from Cons.IH [OF this Cons.prems(2)] obtain e' where "rule_violations sf rs = Inl e'" ..
    with Inr show ?thesis by (simp add: bind_exn_def)
  qed
qed

lemma rule_violations_no_score:
  "\<forall>x \<in> set rs. \<exists>rk. x = JObj rk \<and> map_of rk ''score'' = None \<and> map_of rk ''Score'' = None \<Longrightarrow>
   rule_violations sf rs = Inr []"
proof (induction rs)
  case Nil
  then show ?case by simp
next
  case (Cons a rs)
  then obtain rk where a: "a = JObj rk" "map_of rk ''score'' = None" "map_of rk ''Score'' = None"
    by auto
  have "rule_violation sf a = Inr []"
    by (simp add: rule_violation_def a read_score_absent bind_exn_def)
  moreover have "rule_violations sf rs = Inr []"
    using Cons by simp
  ultimately show ?case by (simp add: bind_exn_def)
qed

lemma float_of_int_overflow: "2 ^ 1024 \<le> \<bar>i\<bar> \<Longrightarrow> float_of_int i = Inl OverflowError"
proof -
  assume a: "2 ^ 1024 \<le> \<bar>i\<bar>"
  have "(2::int) ^ 1024 - 2 ^ 970 \<le> 2 ^ 1024" by simp
  with a have "(2::int) ^ 1024 - 2 ^ 970 \<le> \<bar>i\<bar>" by linarith
  then show ?thesis by (simp only: float_of_int_def if_True)
qed

lemma unreadable_score:
  assumes "map_of rk ''score'' = Some v"
    and "v = JNull \<or> (\<exists>i. v = JInt i \<and> 2 ^ 1024 \<le> \<bar>i\<bar>) \<or> (\<exists>s. v = JStr s \<and> sf s = None)"
  shows "\<exists>e. rule_violation sf (JObj rk) = Inl e"
  using assms
  by (auto simp: rule_violation_def read_score_def bind_exn_def has_key_def dict_get_def
      float_of_int_overflow)


text \<open>
  Claim C10, as the code has it. A body with status 200 that is an object with neither
  \<open>score\<close> nor \<open>Score\<close> is always answered with a result; whenever that result has status
  \<open>success\<close> its score is 0 and its band Excellent. It has status \<open>success\<close> exactly when
  the loop over the rules of the body ends without an exception, as it does for a body
  without rules and for rules that carry no score. When a rule cannot be read (its
  score is \<open>null\<close>, an integer too large for a float, or a string that \<open>float\<close> rejects)
  the result has status \<open>error\<close> instead.
\<close>

theorem missing_score_defaults:
  assumes "map_of kv ''score'' = None" and "map_of kv ''Score'' = None"
  shows "(\<exists>r. check_email_deliverability sf (Response 200 txt (Some (JObj kv))) = Inr r)
     \<and> (\<forall>r. check_email_deliverability sf (Response 200 txt (Some (JObj kv))) = Inr r
              \<and> pm_status r = ''success''
            \<longrightarrow> (\<exists>vs rep. r = PmSuccess (Finite 0) ''Excellent'' vs rep))
     \<and> check_email_deliverability sf (Response 200 txt (Some (JObj kv))) =
         (case all_violations sf
                 (py_or (dict_get kv ''rules'' (JArr [])) (dict_get kv ''Rules'' (JArr []))) of
            Inr vs \<Rightarrow> Inr (PmSuccess (Finite 0) ''Excellent'' vs
                        (py_or (dict_get kv ''report'' (JStr [])) (dict_get kv ''Report'' (JStr []))))
          | Inl e \<Rightarrow> Inr (PmParseError e (JObj kv)))
     \<and> (map_of kv ''rules'' = None \<and> map_of kv ''Rules'' = None \<longrightarrow>
          (\<exists>rep. check_email_deliverability sf (Response 200 txt (Some (JObj kv)))
             = Inr (PmSuccess (Finite 0) ''Excellent'' [] rep)))
     \<and> (map_of kv ''rules'' = Some (JArr rs) \<and> rs \<noteq> []
          \<and> (\<forall>x \<in> set rs. \<exists>rk. x = JObj rk \<and> map_of rk ''score'' = None
                                \<and> map_of rk ''Score'' = None) \<longrightarrow>
          (\<exists>rep. check_email_deliverability sf (Response 200 txt (Some (JObj kv)))
             = Inr (PmSuccess (Finite 0) ''Excellent'' [] rep)))
     \<and> (map_of kv ''rules'' = Some (JArr rs) \<and> JObj rk \<in> set rs \<and> map_of rk ''score'' = Some v
          \<and> (v = JNull \<or> (\<exists>i. v = JInt i \<and> 2 ^ 1024 \<le> \<bar>i\<bar>) \<or> (\<exists>s. v = JStr s \<and> sf s = None)) \<longrightarrow>
          (\<exists>e. check_email_deliverability sf (Response 200 txt (Some (JObj kv)))
             = Inr (PmParseError e (JObj kv))))"
proof -
  let ?res = "check_email_deliverability sf (Response 200 txt (Some (JObj kv)))"
  let ?rules = "py_or (dict_get kv ''rules'' (JArr [])) (dict_get kv ''Rules'' (JArr []))"
  note eq = parse_without_score [OF assms, of sf "txt"]
  have c1: "\<exists>r. ?res = Inr r"
    unfolding eq by (simp split: sum.splits)
  have c2: "\<forall>r. ?res = Inr r \<and> pm_status r = ''success''
            \<longrightarrow> (\<exists>vs rep. r = PmSuccess (Finite 0) ''Excellent'' vs rep)"
    unfolding eq by (auto split: sum.splits)
  have c4: "map_of kv ''rules'' = None \<and> map_of kv ''Rules'' = None \<longrightarrow>
          (\<exists>rep. ?res = Inr (PmSuccess (Finite 0) ''Excellent'' [] rep))"
    unfolding eq by (simp add: dict_get_def py_or_def all_violations_def bind_exn_def)
  have c5: "map_of kv ''rules'' = Some (JArr rs) \<and> rs \<noteq> []
          \<and> (\<forall>x \<in> set rs. \<exists>rk. x = JObj rk \<and> map_of rk ''score'' = None
                                \<and> map_of rk ''Score'' = None) \<longrightarrow>
          (\<exists>rep. ?res = Inr (PmSuccess (Finite 0) ''Excellent'' [] rep))"
  proof (intro impI, elim conjE)
    assume r: "map_of kv ''rules'' = Some (JArr rs)" and ne: "rs \<noteq> []"
      and all: "\<forall>x \<in> set rs. \<exists>rk. x = JObj rk \<and> map_of rk ''score'' = None
                                \<and> map_of rk ''Score'' = None"
    have "?rules = JArr rs" using r ne by (simp add: dict_get_def py_or_def)
    then have "all_violations sf ?rules = Inr []"
      using rule_violations_no_score [OF all, of sf] by (simp add: all_violations_def bind_exn_def)
    then show "\<exists>rep. ?res = Inr (PmSuccess (Finite 0) ''Excellent'' [] rep)"
      unfolding eq by simp
  qed
  have c6: "map_of kv ''rules'' = Some (JArr rs) \<and> JObj rk \<in> set rs \<and> map_of rk ''score'' = Some v
          \<and> (v = JNull \<or> (\<exists>i. v = JInt i \<and> 2 ^ 1024 \<le> \<bar>i\<bar>) \<or> (\<exists>s. v = JStr s \<and> sf s = None)) \<longrightarrow>
          (\<exists>e. ?res = Inr (PmParseError e (JObj kv)))"
  proof (intro impI, elim conjE)
    assume r: "map_of kv ''rules'' = Some (JArr rs)" and m: "JObj rk \<in> set rs"
      and sc: "map_of rk ''score'' = Some v"
      and bad: "v = JNull \<or> (\<exists>i. v = JInt i \<and> 2 ^ 1024 \<le> \<bar>i\<bar>) \<or> (\<exists>s. v = JStr s \<and> sf s = None)"
    from m have ne: "rs \<noteq> []" by auto
    have rules: "?rules = JArr rs" using r ne by (simp add: dict_get_def py_or_def)
    obtain e where "rule_violation sf (JObj rk) = Inl e"
      using unreadable_score [OF sc bad] ..
    from rule_violations_raise [OF m this] obtain e' where "rule_violations sf rs = Inl e'" ..
    then have "all_violations sf ?rules = Inl e'"
      by (simp add: rules all_violations_def bind_exn_def)
    then show "\<exists>e. ?res = Inr (PmParseError e (JObj kv))"
      unfolding eq by simp
  qed
  show ?thesis
    using c1 c2 eq c4 c5 c6 by blast
qed

theorem missing_score_defaults_witness:
  "\<forall>sf. check_email_deliverability sf (Response 200 [] (Some (JObj [(''success'', JBool True)])))
       = Inr (PmSuccess (Finite 0) ''Excellent'' [] (JStr []))
     \<and> check_email_deliverability sf
         (Response 200 [] (Some (JObj [(''rules'', JArr [JObj [(''name'', JStr ''HTML_MESSAGE'')]])])))
       = Inr (PmSuccess (Finite 0) ''Excellent'' [] (JStr []))
     \<and> (\<exists>e. check_email_deliverability sf
         (Response 200 [] (Some (JObj [(''rules'', JArr [JObj [(''score'', JInt (2 ^ 1024))]])])))
       = Inr (PmParseError e (JObj [(''rules'', JArr [JObj [(''score'', JInt (2 ^ 1024))]])])))"
proof (intro allI)
  fix sf :: "string \<Rightarrow> pyfloat option"
  have a: "check_email_deliverability sf (Response 200 [] (Some (JObj [(''success'', JBool True)])))
       = Inr (PmSuccess (Finite 0) ''Excellent'' [] (JStr []))"
    using missing_score_defaults [of "[(''success'', JBool True)]" sf "[]",
        THEN conjunct2, THEN conjunct2, THEN conjunct1]
    by (simp add: all_violations_def bind_exn_def dict_get_def py_or_def)
  have b: "check_email_deliverability sf
         (Response 200 [] (Some (JObj [(''rules'', JArr [JObj [(''name'', JStr ''HTML_MESSAGE'')]])])))
       = Inr (PmSuccess (Finite 0) ''Excellent'' [] (JStr []))"
    using missing_score_defaults [of "[(''rules'', JArr [JObj [(''name'', JStr ''HTML_MESSAGE'')]])]"
        sf "[]", THEN conjunct2, THEN conjunct2, THEN conjunct1]
    by (simp add: all_violations_def bind_exn_def dict_get_def py_or_def rule_violation_def
        read_score_def has_key_def)
  have c: "\<exists>e. check_email_deliverability sf
         (Response 200 [] (Some (JObj [(''rules'', JArr [JObj [(''score'', JInt (2 ^ 1024))]])])))
       = Inr (PmParseError e (JObj [(''rules'', JArr [JObj [(''score'', JInt (2 ^ 1024))]])]))"
    using missing_score_defaults [of "[(''rules'', JArr [JObj [(''score'', JInt (2 ^ 1024))]])]" sf "[]"
        "[JObj [(''score'', JInt (2 ^ 1024))]]" "[(''score'', JInt (2 ^ 1024))]" "JInt (2 ^ 1024)",
        THEN conjunct2, THEN conjunct2, THEN conjunct2, THEN conjunct2, THEN conjunct2]
    by simp
  show "check_email_deliverability sf (Response 200 [] (Some (JObj [(''success'', JBool True)])))
       = Inr (PmSuccess (Finite 0) ''Excellent'' [] (JStr []))
     \<and> check_email_deliverability sf
         (Response 200 [] (Some (JObj [(''rules'', JArr [JObj [(''name'', JStr ''HTML_MESSAGE'')]])])))
       = Inr (PmSuccess (Finite 0) ''Excellent'' [] (JStr []))
     \<and> (\<exists>e. check_email_deliverability sf
         (Response 200 [] (Some (JObj [(''rules'', JArr [JObj [(''score'', JInt (2 ^ 1024))]])])))
       = Inr (PmParseError e (JObj [(''rules'', JArr [JObj [(''score'', JInt (2 ^ 1024))]])])))"
    using a b c by (intro conjI)
qed

text \<open>The claim as stated (every such body gives \<open>success\<close>) fails on a body whose only
  rule carries a \<open>null\<close> score: \<open>float(None)\<close> raises and the parser reports an error.\<close>

theorem missing_score_counterexample:
  "map_of [(''rules'', JArr [JObj [(''score'', JNull)]])] ''score'' = None
   \<and> map_of [(''rules'', JArr [JObj [(''score'', JNull)]])] ''Score'' = None
   \<and> (\<forall>sf. check_email_deliverability sf
        (Response 200 [] (Some (JObj [(''rules'', JArr [JObj [(''score'', JNull)]])])))
       = Inr (PmParseError TypeError (JObj [(''rules'', JArr [JObj [(''score'', JNull)]])])))
   \<and> pm_status (PmParseError TypeError (JObj [(''rules'', JArr [JObj [(''score'', JNull)]])])) = ''error''"
  by (simp add: has_key_def check_email_deliverability_def parse_postmark_results_def
      parse_body_def read_score_def all_violations_def
      bind_exn_def dict_get_def py_or_def rule_violation_def)

section \<open>Properties of the blacklist step\<close>

lemma show_int_0: "show_int 0 = ''0''"
  by (simp add: show_int_def show_nat.simps [of 0] digit_char_def)

text \<open>
  Claim C3 at a failing input. An IP lookup answered with HTTP 500 and a domain lookup
  that times out are returned as \<open>failed\<close> and \<open>error\<close>; the field map then reads
  \<open>Detections: 0\<close> for both, with no issue recorded, exactly what two clean lookups
  (status 200, no detection) give for these fields. The branches that write
  \<open>Fallback - Check Failed\<close> test for the status \<open>fallback\<close>, which is only assigned
  after the map has been built.
\<close>

theorem failed_check_reads_as_clean:
  "check_ip_blacklists (Response 500 [] None) = Inr (BlFailed 500)
   \<and> check_domain_blacklists (Transport ''timed out'') = Inr (BlError (Raised ''timed out''))
   \<and> blacklist_properties (BlFailed 500) (BlError (Raised ''timed out'')) ''IP Blacklist Status''
       = Some (RichText ''Detections: 0'')
   \<and> blacklist_properties (BlFailed 500) (BlError (Raised ''timed out'')) ''Domain Blacklist Status''
       = Some (RichText ''Detections: 0'')
   \<and> blacklist_properties (BlFailed 500) (BlError (Raised ''timed out'')) ''Issues Found'' = None
   \<and> check_ip_blacklists
        (Response 200 [] (Some \<lparr>b_detections = Some 0, b_blacklists = Some [], b_checks_remaining = Some 7\<rparr>))
       = Inr (BlChecked False 0 [] 0 7)
   \<and> blacklist_properties (BlChecked False 0 [] 0 7) (BlChecked False 0 [] 0 7) ''IP Blacklist Status''
       = Some (RichText ''Detections: 0'')
   \<and> blacklist_properties (BlChecked False 0 [] 0 7) (BlChecked False 0 [] 0 7) ''Domain Blacklist Status''
       = Some (RichText ''Detections: 0'')"
  by (simp add: check_ip_blacklists_def check_domain_blacklists_def blacklist_properties_def
      raw_output_field_def domain_fields_def ip_fields_def show_int_0)

section \<open>Properties of the placement-test client\<close>

theorem every_request_starts_at_first_variant:
  "\<exists>rest. sent (snd (make_request_with_retry srv c)) = sent c @ 0 # rest"
  by (cases "srv 0") (auto simp: make_request_with_retry_def headers_variants_def split: http_outcome.splits prod.splits)

text \<open>
  Claim C9 at a failing input. The provider accepts the third header variant only. The
  first request tries the variants 0, 1, 2 and stores index 2; the next request of the
  same client, with index 2 stored, again sends the variants 0 and 1 before 2: the stored
  index is never read.
\<close>

theorem pinned_variant_not_reused:
  "make_request_with_retry
     (\<lambda>i. if i = 2 then Response 200 [] (Some ()) else Response 401 ''No API key provided'' None)
     \<lparr>current_header_index = 0, sent = []\<rparr>
   = (Some (200, [], Some ()), \<lparr>current_header_index = 2, sent = [0, 1, 2]\<rparr>)
   \<and> make_request_with_retry
     (\<lambda>i. if i = 2 then Response 200 [] (Some ()) else Response 401 ''No API key provided'' None)
     \<lparr>current_header_index = 2, sent = [0, 1, 2]\<rparr>
   = (Some (200, [], Some ()), \<lparr>current_header_index = 2, sent = [0, 1, 2, 0, 1, 2]\<rparr>)"
  by (simp add: make_request_with_retry_def headers_variants_def)










section \<open>Properties of the provider clients\<close>

lemma ip_returns: "\<exists>r. check_ip_blacklists outcome = Inr r"
  by (simp add: check_ip_blacklists_def split: sum.splits)

lemma domain_returns: "\<exists>r. check_domain_blacklists outcome = Inr r"
  by (simp add: check_domain_blacklists_def split: sum.splits)

lemma email_returns: "\<exists>r. check_email_deliverability sf outcome = Inr r"
  by (simp add: check_email_deliverability_def split: sum.splits)

lemma request_transport:
  "make_request_with_retry (\<lambda>i. Transport msg) c = (None, c\<lparr>sent := sent c @ [0, 1, 2, 3]\<rparr>)"
  by (simp add: make_request_with_retry_def headers_variants_def)

lemma request_error_status:
  assumes "400 \<le> rc" and "rc < 600"
  shows "fst (make_request_with_retry (\<lambda>i. Response rc tx rbody) c) = None
       \<or> fst (make_request_with_retry (\<lambda>i. Response rc tx rbody) c) = Some (rc, tx, rbody)"
  using assms by (simp add: make_request_with_retry_def headers_variants_def)

lemma read_created_returns:
  "read_created result = Inr r \<Longrightarrow>
   \<exists>kv. result = JObj kv \<and> map_of kv ''testId'' = Some (test_id r) \<and> truthy (test_id r)"
proof (cases result)
  case (JObj kv)
  assume "read_created result = Inr r"
  then show ?thesis
    by (cases "map_of kv ''testId''")
      (auto simp: JObj read_created_def bind_exn_def dict_get_def split: if_splits sum.splits)
qed (simp_all add: read_created_def bind_exn_def)

lemma create_test_returns:
  assumes "fst (create_test srv c) = Inr r"
  shows "\<exists>pid c1 rc tx kv c2. get_project_id srv c = (Some pid, c1)
           \<and> make_request_with_retry (manual_test srv pid) c1 = (Some (rc, tx, Some (JObj kv)), c2)
           \<and> (rc = 200 \<or> rc = 201) \<and> map_of kv ''testId'' = Some (test_id r) \<and> truthy (test_id r)"
proof -
  obtain p c1 where g: "get_project_id srv c = (p, c1)" by (cases "get_project_id srv c")
  show ?thesis
  proof (cases p)
    case None
    with assms g show ?thesis by (simp add: create_test_def)
  next
    case (Some pid)
    obtain resp c2 where m: "make_request_with_retry (manual_test srv pid) c1 = (resp, c2)"
      by (cases "make_request_with_retry (manual_test srv pid) c1")
    show ?thesis
    proof (cases resp)
      case None
      with assms g Some m show ?thesis by (simp add: create_test_def)
    next
      case (Some a)
      obtain rc tx rbody where a: "a = (rc, tx, rbody)" by (cases a)
      from assms g \<open>p = Some pid\<close> m Some a
      have ok: "rc = 200 \<or> rc = 201"
        by (auto simp: create_test_def split: if_splits)
      with assms g \<open>p = Some pid\<close> m Some a
      obtain result where b: "rbody = Some result" and rd: "read_created result = Inr r"
        by (cases rbody) (auto simp: create_test_def response_ok_def split: if_splits)
      from read_created_returns [OF rd] obtain kv where
        "result = JObj kv" "map_of kv ''testId'' = Some (test_id r)" "truthy (test_id r)" by blast
      with g \<open>p = Some pid\<close> m Some a ok b show ?thesis by auto
    qed
  qed
qed

lemma create_test_no_project:
  "fst (get_project_id srv c) = None \<Longrightarrow>
   fst (create_test srv c) = Inl (Raised ''Could not retrieve project ID from GlockApps'')"
  by (auto simp: create_test_def split: prod.splits option.splits)

lemma create_test_transport:
  "get_project_id srv c = (Some pid, c1) \<Longrightarrow> manual_test srv pid = (\<lambda>i. Transport msg) \<Longrightarrow>
   fst (create_test srv c) = Inl (Raised ''API request failed: No response'')"
  by (simp add: create_test_def request_transport)

lemma create_test_error_status:
  assumes "get_project_id srv c = (Some pid, c1)"
    and "manual_test srv pid = (\<lambda>i. Response rc tx rbody)" and "400 \<le> rc" and "rc < 600"
  shows "fst (create_test srv c) = Inl (Raised ''API request failed: No response'')"
proof -
  obtain resp c2 where m: "make_request_with_retry (\<lambda>i. Response rc tx rbody) c1 = (resp, c2)"
    by (cases "make_request_with_retry (\<lambda>i. Response rc tx rbody) c1")
  with request_error_status [OF assms(3,4), of tx rbody c1]
  have "resp = None \<or> resp = Some (rc, tx, rbody)" by simp
  then show ?thesis
    using assms m by (auto simp: create_test_def response_ok_def)
qed

lemma create_test_other_status:
  assumes "get_project_id srv c = (Some pid, c1)"
    and "make_request_with_retry (manual_test srv pid) c1 = (Some (rc, tx, rbody), c2)"
    and "rc \<noteq> 200" and "rc \<noteq> 201" and "\<not> (400 \<le> rc \<and> rc < 600)"
  shows "fst (create_test srv c) = Inl (Raised (''API request failed: '' @ show_nat rc @ '' - '' @ tx))"
proof -
  from assms(5) have "response_ok rc" by (simp add: response_ok_def)
  with assms(1-4) show ?thesis by (simp add: create_test_def)
qed

lemma show_nat_204: "show_nat 204 = ''204''"
  by (simp add: show_nat.simps [of 204] show_nat.simps [of 20] show_nat.simps [of 2] digit_char_def)

lemma create_test_no_id:
  assumes "get_project_id srv c = (Some pid, c1)"
    and "make_request_with_retry (manual_test srv pid) c1 = (Some (rc, tx, Some (JObj kv)), c2)"
    and "rc = 200 \<or> rc = 201"
    and "map_of kv ''testId'' = None \<or> map_of kv ''testId'' = Some JNull
         \<or> map_of kv ''testId'' = Some (JStr [])"
  shows "fst (create_test srv c) = Inl (RaisedWith ''No test ID in response: '' (JObj kv))"
  using assms
  by (auto simp: create_test_def response_ok_def read_created_def bind_exn_def dict_get_def)

lemma create_test_undecodable:
  assumes "get_project_id srv c = (Some pid, c1)"
    and "make_request_with_retry (manual_test srv pid) c1 = (Some (rc, tx, None), c2)"
    and "rc = 200 \<or> rc = 201"
  shows "fst (create_test srv c) = Inl ValueError"
  using assms by (auto simp: create_test_def response_ok_def)


text \<open>
  Claim C6, as the code has it. The two blacklist lookups and the spam-content scan return
  a result for every outcome: a transport exception is returned with status \<open>error\<close>, an
  HTTP error with status \<open>failed\<close> (for the scan, \<open>error\<close>). The creation of a placement
  test returns a dictionary only when the project id was found and the creation request
  was answered with status 200 or 201 and an object holding a test id that counts as
  true. In every other case it raises: when no project id can be found, when the request
  fails on the transport or is answered with an error status (400 to 599), when it is
  answered with another status than 200 or 201, when the body holds no test id, and when
  the body does not decode.
\<close>

theorem client_results:
  "(\<exists>r. check_ip_blacklists o1 = Inr r)
   \<and> (\<exists>r. check_domain_blacklists o2 = Inr r)
   \<and> (\<exists>r. check_email_deliverability sf o3 = Inr r)
   \<and> check_ip_blacklists (Transport msg) = Inr (BlError (Raised msg))
   \<and> check_domain_blacklists (Transport msg) = Inr (BlError (Raised msg))
   \<and> check_email_deliverability sf (Transport msg) = Inr (PmException (Raised msg))
   \<and> (code \<noteq> 200 \<longrightarrow> check_ip_blacklists (Response code [] body) = Inr (BlFailed code))
   \<and> (code \<noteq> 200 \<longrightarrow> check_domain_blacklists (Response code [] body) = Inr (BlFailed code))
   \<and> (code \<noteq> 200 \<longrightarrow>
        check_email_deliverability sf (Response code tx jbody) = Inr (PmHttpError code tx))
   \<and> (\<forall>r. fst (create_test srv c) = Inr r \<longrightarrow>
        (\<exists>pid c1 rc tx kv c2. get_project_id srv c = (Some pid, c1)
           \<and> make_request_with_retry (manual_test srv pid) c1 = (Some (rc, tx, Some (JObj kv)), c2)
           \<and> (rc = 200 \<or> rc = 201) \<and> map_of kv ''testId'' = Some (test_id r)
           \<and> truthy (test_id r)))
   \<and> (fst (get_project_id srv c) = None \<longrightarrow>
        fst (create_test srv c) = Inl (Raised ''Could not retrieve project ID from GlockApps''))
   \<and> (get_project_id srv c = (Some pid, c1) \<and> manual_test srv pid = (\<lambda>i. Transport msg) \<longrightarrow>
        fst (create_test srv c) = Inl (Raised ''API request failed: No response''))
   \<and> (get_project_id srv c = (Some pid, c1) \<and> manual_test srv pid = (\<lambda>i. Response rc tx rbody)
         \<and> 400 \<le> rc \<and> rc < 600 \<longrightarrow>
        fst (create_test srv c) = Inl (Raised ''API request failed: No response''))
   \<and> (get_project_id srv c = (Some pid, c1)
         \<and> make_request_with_retry (manual_test srv pid) c1 = (Some (rc, tx, rbody), c2)
         \<and> rc \<noteq> 200 \<and> rc \<noteq> 201 \<and> (rc < 400 \<or> 600 \<le> rc) \<longrightarrow>
        fst (create_test srv c)
          = Inl (Raised (''API request failed: '' @ show_nat rc @ '' - '' @ tx)))
   \<and> (get_project_id srv c = (Some pid, c1)
         \<and> make_request_with_retry (manual_test srv pid) c1 = (Some (rc, tx, Some (JObj kv)), c2)
         \<and> (rc = 200 \<or> rc = 201)
         \<and> (map_of kv ''testId'' = None \<or> map_of kv ''testId'' = Some JNull
              \<or> map_of kv ''testId'' = Some (JStr [])) \<longrightarrow>
        fst (create_test srv c) = Inl (RaisedWith ''No test ID in response: '' (JObj kv)))
   \<and> (get_project_id srv c = (Some pid, c1)
         \<and> make_request_with_retry (manual_test srv pid) c1 = (Some (rc, tx, None), c2)
         \<and> (rc = 200 \<or> rc = 201) \<longrightarrow>
        fst (create_test srv c) = Inl ValueError)"
proof -
  have a: "\<forall>r. fst (create_test srv c) = Inr r \<longrightarrow>
        (\<exists>pid c1 rc tx kv c2. get_project_id srv c = (Some pid, c1)
           \<and> make_request_with_retry (manual_test srv pid) c1 = (Some (rc, tx, Some (JObj kv)), c2)
           \<and> (rc = 200 \<or> rc = 201) \<and> map_of kv ''testId'' = Some (test_id r)
           \<and> truthy (test_id r))"
    using create_test_returns [of srv c] by blast
  have b: "get_project_id srv c = (Some pid, c1)
         \<and> make_request_with_retry (manual_test srv pid) c1 = (Some (rc, tx, rbody), c2)
         \<and> rc \<noteq> 200 \<and> rc \<noteq> 201 \<and> (rc < 400 \<or> 600 \<le> rc) \<longrightarrow>
        fst (create_test srv c)
          = Inl (Raised (''API request failed: '' @ show_nat rc @ '' - '' @ tx))"
    using create_test_other_status [of srv c pid c1 rc tx rbody c2] by auto
  have d: "get_project_id srv c = (Some pid, c1)
         \<and> make_request_with_retry (manual_test srv pid) c1 = (Some (rc, tx, Some (JObj kv)), c2)
         \<and> (rc = 200 \<or> rc = 201)
         \<and> (map_of kv ''testId'' = None \<or> map_of kv ''testId'' = Some JNull
              \<or> map_of kv ''testId'' = Some (JStr [])) \<longrightarrow>
        fst (create_test srv c) = Inl (RaisedWith ''No test ID in response: '' (JObj kv))"
    using create_test_no_id [of srv c pid c1 rc tx kv c2] by blast
  have e: "get_project_id srv c = (Some pid, c1)
         \<and> make_request_with_retry (manual_test srv pid) c1 = (Some (rc, tx, None), c2)
         \<and> (rc = 200 \<or> rc = 201) \<longrightarrow>
        fst (create_test srv c) = Inl ValueError"
    using create_test_undecodable [of srv c pid c1 rc tx c2] by blast
  have f: "get_project_id srv c = (Some pid, c1) \<and> manual_test srv pid = (\<lambda>i. Response rc tx rbody)
         \<and> 400 \<le> rc \<and> rc < 600 \<longrightarrow>
        fst (create_test srv c) = Inl (Raised ''API request failed: No response'')"
    using create_test_error_status [of srv c pid c1 rc tx rbody] by blast
  have g: "get_project_id srv c = (Some pid, c1) \<and> manual_test srv pid = (\<lambda>i. Transport msg) \<longrightarrow>
        fst (create_test srv c) = Inl (Raised ''API request failed: No response'')"
    using create_test_transport [of srv c pid c1 msg] by blast
  have h: "fst (get_project_id srv c) = None \<longrightarrow>
        fst (create_test srv c) = Inl (Raised ''Could not retrieve project ID from GlockApps'')"
    using create_test_no_project [of srv c] by blast
  have i: "check_ip_blacklists (Transport msg) = Inr (BlError (Raised msg))"
    "check_domain_blacklists (Transport msg) = Inr (BlError (Raised msg))"
    "check_email_deliverability sf (Transport msg) = Inr (PmException (Raised msg))"
    "code \<noteq> 200 \<longrightarrow> check_ip_blacklists (Response code [] body) = Inr (BlFailed code)"
    "code \<noteq> 200 \<longrightarrow> check_domain_blacklists (Response code [] body) = Inr (BlFailed code)"
    "code \<noteq> 200 \<longrightarrow>
        check_email_deliverability sf (Response code tx jbody) = Inr (PmHttpError code tx)"
    by (simp_all add: check_ip_blacklists_def check_domain_blacklists_def
        check_email_deliverability_def)
  show ?thesis
    using ip_returns [of o1] domain_returns [of o2] email_returns [of sf o3] i a h g f b d e
    by (intro conjI)
qed

theorem client_results_witness:
  "fst (create_test
       \<lparr>projects = (\<lambda>i. Response 200 [] (Some (JArr [JObj [(''id'', JStr ''p1'')]]))),
        manual_test = (\<lambda>p i. Response 201 [] (Some (JObj [(''testId'', JStr ''t-1''), (''emails'', JArr [JStr ''a@seed.io''])]))),
        tests = (\<lambda>p t i. Transport ''unused'')\<rparr>
       \<lparr>current_header_index = 0, sent = []\<rparr>) = Inr \<lparr>test_id = JStr ''t-1'', emails = JArr [JStr ''a@seed.io'']\<rparr>
   \<and> fst (create_test
       \<lparr>projects = (\<lambda>i. Response 200 [] (Some (JArr [JObj [(''id'', JStr ''p1'')]]))),
        manual_test = (\<lambda>p i. Transport ''timed out''),
        tests = (\<lambda>p t i. Transport ''unused'')\<rparr>
       \<lparr>current_header_index = 0, sent = []\<rparr>) = Inl (Raised ''API request failed: No response'')
   \<and> fst (create_test
       \<lparr>projects = (\<lambda>i. Response 200 [] (Some (JArr [JObj [(''id'', JStr ''p1'')]]))),
        manual_test = (\<lambda>p i. Response 503 ''Service Unavailable'' None),
        tests = (\<lambda>p t i. Transport ''unused'')\<rparr>
       \<lparr>current_header_index = 0, sent = []\<rparr>) = Inl (Raised ''API request failed: No response'')
   \<and> fst (create_test
       \<lparr>projects = (\<lambda>i. Response 200 [] (Some (JArr [JObj [(''id'', JStr ''p1'')]]))),
        manual_test = (\<lambda>p i. Response 204 [] None),
        tests = (\<lambda>p t i. Transport ''unused'')\<rparr>
       \<lparr>current_header_index = 0, sent = []\<rparr>) = Inl (Raised ''API request failed: 204 - '')
   \<and> fst (create_test
       \<lparr>projects = (\<lambda>i. Response 200 [] (Some (JArr [JObj [(''id'', JStr ''p1'')]]))),
        manual_test = (\<lambda>p i. Response 200 [] (Some (JObj [(''emails'', JArr [])]))),
        tests = (\<lambda>p t i. Transport ''unused'')\<rparr>
       \<lparr>current_header_index = 0, sent = []\<rparr>) = Inl (RaisedWith ''No test ID in response: '' (JObj [(''emails'', JArr [])]))
   \<and> check_ip_blacklists (Response 404 [] None) = Inr (BlFailed 404)
   \<and> check_domain_blacklists (Response 404 [] None) = Inr (BlFailed 404)
   \<and> (\<forall>sf. check_email_deliverability sf (Response 404 ''Not Found'' None)
          = Inr (PmHttpError 404 ''Not Found''))"
proof -
  have g: "\<And>mt. get_project_id
       \<lparr>projects = (\<lambda>i. Response 200 [] (Some (JArr [JObj [(''id'', JStr ''p1'')]]))),
        manual_test = mt, tests = (\<lambda>p t i. Transport ''unused'')\<rparr>
       \<lparr>current_header_index = 0, sent = []\<rparr> = (Some (JStr ''p1''), \<lparr>current_header_index = 0, sent = [0]\<rparr>)"
    by (simp add: get_project_id_def make_request_with_retry_def headers_variants_def
        response_ok_def first_project_id_def projects_of_def bind_exn_def
        dict_get_def has_key_def py_or_def)
  have a: "fst (create_test
       \<lparr>projects = (\<lambda>i. Response 200 [] (Some (JArr [JObj [(''id'', JStr ''p1'')]]))),
        manual_test = (\<lambda>p i. Response 201 [] (Some (JObj [(''testId'', JStr ''t-1''), (''emails'', JArr [JStr ''a@seed.io''])]))),
        tests = (\<lambda>p t i. Transport ''unused'')\<rparr>
       \<lparr>current_header_index = 0, sent = []\<rparr>) = Inr \<lparr>test_id = JStr ''t-1'', emails = JArr [JStr ''a@seed.io'']\<rparr>"
    by (simp add: create_test_def get_project_id_def make_request_with_retry_def headers_variants_def
        response_ok_def first_project_id_def projects_of_def read_created_def bind_exn_def
        dict_get_def has_key_def py_or_def)
  have a': "truthy (JStr ''t-1'')"
    using a client_results [where srv = "\<lparr>projects = (\<lambda>i. Response 200 [] (Some (JArr [JObj [(''id'', JStr ''p1'')]]))),
        manual_test = (\<lambda>p i. Response 201 [] (Some (JObj [(''testId'', JStr ''t-1''), (''emails'', JArr [JStr ''a@seed.io''])]))),
        tests = (\<lambda>p t i. Transport ''unused'')\<rparr>"
        and c = "\<lparr>current_header_index = 0, sent = []\<rparr>", THEN conjunct2, THEN conjunct2, THEN conjunct2, THEN conjunct2,
        THEN conjunct2, THEN conjunct2, THEN conjunct2, THEN conjunct2, THEN conjunct2,
        THEN conjunct1]
    by auto
  note r = client_results [where c = "\<lparr>current_header_index = 0, sent = []\<rparr>" and pid = "JStr ''p1''"
        and ?c1.0 = "\<lparr>current_header_index = 0, sent = [0]\<rparr>"]
  have b: "fst (create_test
       \<lparr>projects = (\<lambda>i. Response 200 [] (Some (JArr [JObj [(''id'', JStr ''p1'')]]))),
        manual_test = (\<lambda>p i. Transport ''timed out''),
        tests = (\<lambda>p t i. Transport ''unused'')\<rparr>
       \<lparr>current_header_index = 0, sent = []\<rparr>) = Inl (Raised ''API request failed: No response'')"
    using r [where srv = "\<lparr>projects = (\<lambda>i. Response 200 [] (Some (JArr [JObj [(''id'', JStr ''p1'')]]))),
        manual_test = (\<lambda>p i. Transport ''timed out''),
        tests = (\<lambda>p t i. Transport ''unused'')\<rparr>" and msg = "''timed out''"] g
    by simp
  have c: "fst (create_test
       \<lparr>projects = (\<lambda>i. Response 200 [] (Some (JArr [JObj [(''id'', JStr ''p1'')]]))),
        manual_test = (\<lambda>p i. Response 503 ''Service Unavailable'' None),
        tests = (\<lambda>p t i. Transport ''unused'')\<rparr>
       \<lparr>current_header_index = 0, sent = []\<rparr>) = Inl (Raised ''API request failed: No response'')"
    using r [where srv = "\<lparr>projects = (\<lambda>i. Response 200 [] (Some (JArr [JObj [(''id'', JStr ''p1'')]]))),
        manual_test = (\<lambda>p i. Response 503 ''Service Unavailable'' None),
        tests = (\<lambda>p t i. Transport ''unused'')\<rparr>" and rc = 503 and tx = "''Service Unavailable''"
        and rbody = None] g
    by simp
  have d: "fst (create_test
       \<lparr>projects = (\<lambda>i. Response 200 [] (Some (JArr [JObj [(''id'', JStr ''p1'')]]))),
        manual_test = (\<lambda>p i. Response 204 [] None),
        tests = (\<lambda>p t i. Transport ''unused'')\<rparr>
       \<lparr>current_header_index = 0, sent = []\<rparr>) = Inl (Raised ''API request failed: 204 - '')"
    using r [where srv = "\<lparr>projects = (\<lambda>i. Response 200 [] (Some (JArr [JObj [(''id'', JStr ''p1'')]]))),
        manual_test = (\<lambda>p i. Response 204 [] None),
        tests = (\<lambda>p t i. Transport ''unused'')\<rparr>" and rc = 204 and tx = "[]" and rbody = None
        and ?c2.0 = "\<lparr>current_header_index = 0, sent = [0, 0]\<rparr>"] g
    by (simp add: make_request_with_retry_def headers_variants_def show_nat_204)
  have e: "fst (create_test
       \<lparr>projects = (\<lambda>i. Response 200 [] (Some (JArr [JObj [(''id'', JStr ''p1'')]]))),
        manual_test = (\<lambda>p i. Response 200 [] (Some (JObj [(''emails'', JArr [])]))),
        tests = (\<lambda>p t i. Transport ''unused'')\<rparr>
       \<lparr>current_header_index = 0, sent = []\<rparr>) = Inl (RaisedWith ''No test ID in response: '' (JObj [(''emails'', JArr [])]))"
    using r [where srv = "\<lparr>projects = (\<lambda>i. Response 200 [] (Some (JArr [JObj [(''id'', JStr ''p1'')]]))),
        manual_test = (\<lambda>p i. Response 200 [] (Some (JObj [(''emails'', JArr [])]))),
        tests = (\<lambda>p t i. Transport ''unused'')\<rparr>" and rc = 200 and tx = "[]"
        and kv = "[(''emails'', JArr [])]"
        and ?c2.0 = "\<lparr>current_header_index = 0, sent = [0, 0]\<rparr>"] g
    by (simp add: make_request_with_retry_def headers_variants_def)
  have f: "check_ip_blacklists (Response 404 [] None) = Inr (BlFailed 404)
   \<and> check_domain_blacklists (Response 404 [] None) = Inr (BlFailed 404)
   \<and> (\<forall>sf. check_email_deliverability sf (Response 404 ''Not Found'' None)
          = Inr (PmHttpError 404 ''Not Found''))"
    using client_results [where code = 404 and body = None]
      client_results [where code = 404 and tx = "''Not Found''" and jbody = None]
    by simp
  show ?thesis
    using a a' b c d e f by blast
qed

text \<open>The claim as stated fails for the creation of a placement test: an HTTP 503 and a
  transport exception both leave the client as a raised exception.\<close>

theorem create_test_raises:
  "fst (create_test
       \<lparr>projects = (\<lambda>i. Response 200 [] (Some (JArr [JObj [(''id'', JStr ''p1'')]]))),
        manual_test = (\<lambda>p i. Response 503 ''Service Unavailable'' None),
        tests = (\<lambda>p t i. Transport ''unused'')\<rparr>
       \<lparr>current_header_index = 0, sent = []\<rparr>) = Inl (Raised ''API request failed: No response'')
   \<and> fst (create_test
       \<lparr>projects = (\<lambda>i. Response 200 [] (Some (JArr [JObj [(''id'', JStr ''p1'')]]))),
        manual_test = (\<lambda>p i. Transport ''timed out''),
        tests = (\<lambda>p t i. Transport ''unused'')\<rparr>
       \<lparr>current_header_index = 0, sent = []\<rparr>) = Inl (Raised ''API request failed: No response'')"
  by (simp add: create_test_def get_project_id_def make_request_with_retry_def headers_variants_def
        response_ok_def first_project_id_def projects_of_def read_created_def bind_exn_def
        dict_get_def has_key_def py_or_def)

section \<open>Properties of the seed-list chunking\<close>

lemma concat_slices:
  "concat (map (\<lambda>k. take n (drop (k * n) xs)) [0 ..< m]) = take (m * n) xs"
proof (induction m)
  case 0
  then show ?case by simp
next
  case (Suc m)
  have "take (m * n + n) xs = take (m * n) xs @ take n (drop (m * n) xs)"
    by (simp add: take_add)
  with Suc show ?case by (simp add: add.commute)
qed

lemma seed_slices_map:
  "seed_slices xs = map (\<lambda>k. take 25 (drop (k * 25) xs)) [0 ..< (length xs + 24) div 25]"
  by (simp add: seed_slices_def chunk_starts_def chunk_size_def comp_def add.commute)

lemma length_seed_slices: "length (seed_slices xs) = (length xs + 24) div 25"
  by (simp add: seed_slices_map)

lemma take_upt_min: "take k [0 ..< m] = [0 ..< min k m]"
  by (cases "k \<le> m") (simp_all add: min_def)

lemma take_seed_slices:
  "take 5 (seed_slices xs) = map (\<lambda>k. take 25 (drop (k * 25) xs)) [0 ..< min 5 ((length xs + 24) div 25)]"
  by (simp only: seed_slices_map take_map take_upt_min)

lemma concat_take_seed_slices: "concat (take 5 (seed_slices xs)) = take 125 xs"
proof (cases "5 \<le> (length xs + 24) div 25")
  case True
  then show ?thesis by (simp add: take_seed_slices concat_slices min_def)
next
  case False
  then have m: "min 5 ((length xs + 24) div 25) = (length xs + 24) div 25" by simp
  have "length xs \<le> (length xs + 24) div 25 * 25" by presburger
  moreover from False have "length xs \<le> 125" by presburger
  ultimately show ?thesis by (simp add: take_seed_slices concat_slices m)
qed

lemma slice_length: "g \<in> set (seed_slices xs) \<Longrightarrow> length g \<le> 25"
  by (auto simp: seed_slices_map)

lemma length_split_seed_list: "length (split_seed_list xs) = 5"
  by (simp add: split_seed_list_def max_chunks_def Let_def min_def)

lemma split_seed_list_nonempty:
  "xs \<noteq> [] \<Longrightarrow> split_seed_list xs =
     map (join '', '') (take 5 (seed_slices xs)) @ replicate (5 - length (seed_slices xs)) []"
  by (simp add: split_seed_list_def max_chunks_def Let_def take_map)

lemma upt_0_5: "[0 ..< 5] = [0, 1, 2, 3, 4::nat]"
  by (simp add: upt_conv_Cons)

lemma upt_0_6: "[0 ..< 6] = [0, 1, 2, 3, 4, 5::nat]"
  by (simp add: upt_conv_Cons)

text \<open>
  Claim C4, as the code has it. The function returns five strings for every list. An
  empty list gives five times \<open>Failed to retrieve\<close>. A non-empty list gives the slices of
  at most 25 addresses, each joined with a comma and a space, followed by empty strings
  up to five; only the first five slices are kept, so the groups hold the first 125
  addresses in order, and the whole list when it has at most 125 addresses.
\<close>

theorem split_seed_list_groups:
  "length (split_seed_list xs) = 5
   \<and> (xs = [] \<longrightarrow> split_seed_list xs = replicate 5 ''Failed to retrieve'')
   \<and> (xs \<noteq> [] \<longrightarrow> split_seed_list xs =
         map (join '', '') (take 5 (seed_slices xs)) @ replicate (5 - length (seed_slices xs)) [])
   \<and> (\<forall>g \<in> set (seed_slices xs). length g \<le> 25)
   \<and> concat (take 5 (seed_slices xs)) = take 125 xs
   \<and> (length xs \<le> 125 \<longrightarrow> concat (take 5 (seed_slices xs)) = xs)"
  using length_split_seed_list [of xs] split_seed_list_nonempty [of xs]
    concat_take_seed_slices [of xs] slice_length [of _ xs]
  by (auto simp: split_seed_list_def max_chunks_def)

theorem split_seed_list_groups_witness:
  "split_seed_list [''a@x.io'', ''b@x.io''] = ''a@x.io, b@x.io'' # replicate 4 []
   \<and> concat (take 5 (seed_slices [''a@x.io'', ''b@x.io''])) = [''a@x.io'', ''b@x.io'']"
  using split_seed_list_groups [of "[''a@x.io'', ''b@x.io'']"]
  by (simp add: seed_slices_map)

text \<open>The claim as stated fails between 126 and 200 addresses: a list of 126 and its
  first 125 addresses give the same five groups, so the groups cannot give the list back;
  and the value for the empty list is not the string \<open>unavailable\<close>.\<close>

theorem split_seed_list_counterexample:
  "length (replicate 126 ''s@x.io'') \<le> 200
   \<and> replicate 126 ''s@x.io'' \<noteq> replicate 125 ''s@x.io''
   \<and> split_seed_list (replicate 126 ''s@x.io'') = split_seed_list (replicate 125 ''s@x.io'')
   \<and> split_seed_list [] \<noteq> replicate 5 ''unavailable''"
proof -
  have "replicate 126 ''s@x.io'' \<noteq> replicate 125 ''s@x.io''"
  proof
    assume "replicate 126 ''s@x.io'' = replicate 125 ''s@x.io''"
    then have "length (replicate 126 ''s@x.io'') = length (replicate 125 ''s@x.io'')"
      by (rule arg_cong)
    then show False by simp
  qed
  moreover have "split_seed_list (replicate 126 ''s@x.io'') = split_seed_list (replicate 125 ''s@x.io'')"
    by (simp add: split_seed_list_def max_chunks_def seed_slices_map upt_0_5 upt_0_6)
  moreover have "split_seed_list [] \<noteq> replicate 5 ''unavailable''"
    by (simp add: split_seed_list_def max_chunks_def eval_nat_numeral)
  ultimately show ?thesis by simp
qed

section \<open>Properties of the record store\<close>





lemma page_props_glockapps [simp]: "page_props (w\<lparr>glockapps := c\<rparr>) = page_props w"
  by (simp add: page_props_def fun_eq_iff)

lemma update_frame [simp]:
  "glockapps (update_audit_fields ev pid properties w) = glockapps w"
  "content (update_audit_fields ev pid properties w) = content w"
  "dirs (update_audit_fields ev pid properties w) = dirs w"
  "calls (update_audit_fields ev pid properties w) = calls w"
  "test_tracking (update_audit_fields ev pid properties w) = test_tracking w"
  by (simp_all add: update_audit_fields_def)


section \<open>Properties of steps 1 and 2\<close>

















end
